theory Spec2Isabelle
  imports Main
begin

unbundle bit_operations_syntax

section \<open>The data model of foowm\<close>

text \<open>
  The window manager of \<^verbatim>\<open>foowm/wm.py\<close> is one object, \<^verbatim>\<open>FootronWindowManager\<close>, whose
  methods read and write its fields and send requests to the X display. The embedding
  threads a record of those fields through every method and returns it updated, together
  with the exception the method left with, if any: a Python method that raises after it
  has assigned a field leaves the assignment behind, and the model keeps it.
\<close>

datatype exn =
    KeyError | TypeError | ValueError | IndexError | OverflowError
  | XError | BadDrawable | UnicodeDecodeError

type_synonym wid = nat
type_synonym atom = nat
type_synonym ref = nat
type_synonym datetime = int

text \<open>
  Modelled from the spec: the enum \<^verbatim>\<open>ClientType\<close> of \<^verbatim>\<open>foowm/types.py\<close>, a closed set of four
  roles, the four that \<^verbatim>\<open>wm.py\<close> and \<^verbatim>\<open>constants.py\<close> name. An absent type is Python's
  \<^verbatim>\<open>None\<close>.
\<close>

datatype ClientType = Placard | Loader | OffscreenSource | OffscreenHack

text \<open>
  Modelled from the spec: the enum of \<^verbatim>\<open>foowm/types.py\<close> that keys the per-scenario tables
  of \<^verbatim>\<open>LAYOUT_GEOMETRY\<close>. \<^verbatim>\<open>constants.py\<close> writes the keys \<^verbatim>\<open>Fullscreen\<close>, \<^verbatim>\<open>Fit4k\<close> and
  \<^verbatim>\<open>Production\<close>, \<^verbatim>\<open>wm.py\<close> looks them up with \<^verbatim>\<open>self._display_scenario\<close>, and
  \<^verbatim>\<open>__main__.py\<close> starts the manager with \<^verbatim>\<open>Center\<close> by default.
\<close>

datatype DisplayScenario = Center | Fullscreen | Fit4k | Production

text \<open>
  Modelled from the spec: the names of the atoms, \<^verbatim>\<open>NetAtom\<close> and \<^verbatim>\<open>WmAtom\<close> of
  \<^verbatim>\<open>foowm/types.py\<close>, with the members that \<^verbatim>\<open>constants.py\<close> lists as supported and the
  \<^verbatim>\<open>WorkArea\<close> that \<^verbatim>\<open>wm.py\<close> looks up.
\<close>

datatype NetAtom =
    Supported | ActiveWindow | WmName | ClientList | WmCheck | WmState | WmWindowType
  | WmWindowTypeDock | WmWindowTypeToolbar | WmWindowTypeMenu | WmWindowTypeSplash
  | WmWindowTypeDialog | WmWindowTypeUtility | WmStateModal | WmStateAbove | WmStateSticky
  | WorkArea

datatype WmAtom = DeleteWindow | Protocols | Name | State | NormalHints

text \<open>
  Modelled from the spec: \<^verbatim>\<open>WindowGeometry\<close> of \<^verbatim>\<open>foowm/types.py\<close>, an integer rectangle
  with the fields \<^verbatim>\<open>x\<close>, \<^verbatim>\<open>y\<close>, \<^verbatim>\<open>width\<close> and \<^verbatim>\<open>height\<close>.
\<close>

datatype WindowGeometry =
  WindowGeometry (geo_x: int) (geo_y: int) (geo_width: int) (geo_height: int)

text \<open>
  Modelled from the spec: the class \<^verbatim>\<open>Client\<close> of \<^verbatim>\<open>foowm/types.py\<close>, with the fields the
  specification lists and \<^verbatim>\<open>wm.py\<close> uses (\<open>ctype\<close> is its \<^verbatim>\<open>type\<close>). The windows \<^verbatim>\<open>target\<close>
  and \<^verbatim>\<open>parent\<close> are handles, known by their ids. The runtime layout \<^verbatim>\<open>DisplayLayout\<close> is
  the type parameter \<open>'l\<close> of the manager's record: the code only compares layouts and
  passes them on.
\<close>

record Client =
  target :: wid
  parent :: wid
  geometry :: WindowGeometry
  desired_geometry :: WindowGeometry
  title :: "string option"
  ctype :: "ClientType option"
  floating :: bool
  created_at :: datetime
  ignore_unmaps :: int

text \<open>
  Modelled from the spec: the property \<^verbatim>\<open>Client.in_experience_viewport\<close> of \<^verbatim>\<open>types.py\<close>;
  the experience viewport holds the wrappers of ordinary content and of the Loader.
\<close>

definition in_experience_viewport :: "Client \<Rightarrow> bool" where
  "in_experience_viewport c = (ctype c = None \<or> ctype c = Some Loader)"

text \<open>The requests the manager sends to the display, in the order it sends them.\<close>

datatype xcall =
    Configure wid int int int int
  | RaiseWindow wid
  | DestroyWindow wid
  | Reparent wid wid int int
  | KillClient wid
  | MapWindow wid
  | CreateWindow wid int int int int
  | ChangeProperty wid atom "int list"
  | ChangeAttributes wid
  | SetInputFocus wid
  | Sync

text \<open>
  The fields of \<^verbatim>\<open>FootronWindowManager\<close>. \<^verbatim>\<open>_clients\<close> is a Python dict, which iterates in
  insertion order: an association list with distinct keys. \<^verbatim>\<open>_placard\<close>, \<^verbatim>\<open>_loader\<close> and the
  values of \<^verbatim>\<open>_clients\<close> are references to shared \<^verbatim>\<open>Client\<close> objects, so the record holds a
  store \<open>objs\<close> from references to objects. \<open>calls\<close> is the trace of requests sent so far
  and \<open>next_id\<close> the next resource id the display hands out.
\<close>

record 'l wm =
  width :: int
  height :: int
  layout :: 'l
  net_atoms :: "NetAtom \<rightharpoonup> atom"
  wm_atoms :: "WmAtom \<rightharpoonup> atom"
  xembed_info_atom :: atom
  debug_logging :: bool
  display_scenario :: DisplayScenario
  placard :: "ref option"
  loader :: "ref option"
  clients :: "(wid \<times> ref) list"
  client_parents :: "wid set"
  root :: wid
  experience_viewport :: wid
  objs :: "ref \<Rightarrow> Client"
  next_ref :: ref
  next_id :: wid
  calls :: "xcall list"

section \<open>The geometry table and \<^verbatim>\<open>_client_geometry\<close>\<close>

text \<open>
  The lambdas of \<^verbatim>\<open>LAYOUT_GEOMETRY\<close> take keyword-only arguments and swallow the rest in
  \<^verbatim>\<open>**_\<close>. A call that leaves a named argument out raises \<^verbatim>\<open>TypeError\<close>.
\<close>

record 'l kwargs =
  kw_width :: "int option"
  kw_height :: "int option"
  kw_geometry :: "WindowGeometry option"
  kw_layout :: "'l option"

type_synonym rect = "int \<times> int \<times> int \<times> int"

datatype 'l geometry_factory =
    Tuple rect
  | Lambda "'l kwargs \<Rightarrow> exn + rect"

datatype 'l table_entry =
    Factory "'l geometry_factory"
  | Dict "(DisplayScenario \<times> 'l geometry_factory) list"

text \<open>
  \<^verbatim>\<open>int(width * 0.2)\<close> multiplies in double precision and truncates. A double is a
  mantissa below \<open>2\<^sup>5\<^sup>3\<close> times a power of two: \<open>to_double n\<close> is the double nearest to the
  natural number \<open>n\<close> (ties to the even mantissa), as mantissa and exponent, and the
  literal \<^verbatim>\<open>0.2\<close> is the double \<open>3602879701896397 / 2\<^sup>5\<^sup>4\<close>. Converting an integer of
  \<open>2\<^sup>1\<^sup>0\<^sup>2\<^sup>4\<close> or more raises \<^verbatim>\<open>OverflowError\<close>; \<^verbatim>\<open>int\<close> truncates towards zero.
\<close>

definition DOUBLE_0_2 :: nat where
  "DOUBLE_0_2 = 3602879701896397"

function excess_bits :: "nat \<Rightarrow> nat" where
  "excess_bits n = (if n < 2 ^ 53 then 0 else Suc (excess_bits (n div 2)))"
  by pat_completeness auto
termination
  by (relation "measure id") auto

definition round_half_even :: "nat \<Rightarrow> nat \<Rightarrow> nat" where
  "round_half_even n e =
     (let q = n div 2 ^ e; r = n mod 2 ^ e
      in if 2 * r < 2 ^ e then q
         else if 2 ^ e < 2 * r then q + 1
         else if even q then q else q + 1)"

definition to_double :: "nat \<Rightarrow> nat \<times> nat" where
  "to_double n = (let e = excess_bits n in (round_half_even n e, e))"

definition int_times_0_2 :: "int \<Rightarrow> exn + int" where
  "int_times_0_2 w =
     (let (m, e) = to_double (nat \<bar>w\<bar>)
      in if 2 ^ 1024 \<le> m * 2 ^ e then Inl OverflowError
         else
           let (m2, e2) = to_double (m * DOUBLE_0_2);
               t = int ((m2 * 2 ^ (e2 + e)) div 2 ^ 54)
           in Inr (if w < 0 then - t else t))"

definition placard_fullscreen :: "'l kwargs \<Rightarrow> exn + rect" where
  "placard_fullscreen kw =
     (case (kw_width kw, kw_height kw) of
        (Some w, Some h) \<Rightarrow>
          (case int_times_0_2 w of
             Inl e \<Rightarrow> Inl e
           | Inr fifth \<Rightarrow> Inr (0, 0, fifth, h))
      | _ \<Rightarrow> Inl TypeError)"

definition offscreen_source :: "'l kwargs \<Rightarrow> exn + rect" where
  "offscreen_source kw =
     (case (kw_width kw, kw_geometry kw) of
        (Some w, Some g) \<Rightarrow> Inr (w, 0, geo_width g, geo_height g)
      | _ \<Rightarrow> Inl TypeError)"

definition offscreen_hack :: "'l kwargs \<Rightarrow> exn + rect" where
  "offscreen_hack kw =
     (case (kw_height kw, kw_geometry kw) of
        (Some h, Some g) \<Rightarrow> Inr (0, h, geo_width g, geo_height g)
      | _ \<Rightarrow> Inl TypeError)"

definition generic_fullscreen :: "'l kwargs \<Rightarrow> exn + rect" where
  "generic_fullscreen kw =
     (case (kw_width kw, kw_height kw) of
        (Some w, Some h) \<Rightarrow> Inr (0, 0, w, h)
      | _ \<Rightarrow> Inl TypeError)"

definition generic_production :: "'l kwargs \<Rightarrow> exn + rect" where
  "generic_production kw =
     (case kw_height kw of
        Some h \<Rightarrow> Inr (978, 0, 3125, h)
      | None \<Rightarrow> Inl TypeError)"

definition LAYOUT_GEOMETRY :: "(ClientType option \<times> 'l table_entry) list" where
  "LAYOUT_GEOMETRY =
     [(Some Placard, Dict
         [(Fullscreen, Lambda placard_fullscreen),
          (Fit4k, Tuple (0, 0, 715, 1758)),
          (Production, Tuple (0, 0, 715, 1758))]),
      (Some OffscreenSource, Factory (Lambda offscreen_source)),
      (Some OffscreenHack, Factory (Lambda offscreen_hack)),
      (None, Dict
         [(Fullscreen, Lambda generic_fullscreen),
          (Fit4k, Tuple (715, 0, 3125, 1758)),
          (Production, Lambda generic_production)])]"

definition geometry_of_rect :: "rect \<Rightarrow> WindowGeometry" where
  "geometry_of_rect t = (case t of (a, b, c, d) \<Rightarrow> WindowGeometry a b c d)"

text \<open>\<^verbatim>\<open>d[k]\<close> on a dict: the value, or \<^verbatim>\<open>KeyError\<close>.\<close>

definition getitem :: "('k \<times> 'v) list \<Rightarrow> 'k \<Rightarrow> exn + 'v" where
  "getitem d k = (case map_of d k of None \<Rightarrow> Inl KeyError | Some v \<Rightarrow> Inr v)"

definition client_geometry ::
  "'l wm \<Rightarrow> WindowGeometry \<Rightarrow> ClientType option \<Rightarrow> bool \<Rightarrow> exn + WindowGeometry" where
  "client_geometry s desired client_type is_floating =
     (if client_type = None \<and> is_floating then Inr desired
      else case getitem LAYOUT_GEOMETRY client_type of
        Inl e \<Rightarrow> Inl e
      | Inr entry \<Rightarrow>
          (case (case entry of
                   Dict d \<Rightarrow> getitem d (display_scenario s)
                 | Factory f \<Rightarrow> Inr f) of
             Inl e \<Rightarrow> Inl e
           | Inr (Tuple t) \<Rightarrow> Inr (geometry_of_rect t)
           | Inr (Lambda f) \<Rightarrow>
               (case f \<lparr>kw_width = Some (width s), kw_height = Some (height s),
                        kw_geometry = Some desired, kw_layout = Some (layout s)\<rparr> of
                  Inl e \<Rightarrow> Inl e
                | Inr t \<Rightarrow> Inr (geometry_of_rect t))))"

section \<open>The classifier \<^verbatim>\<open>_client_type_from_title\<close>\<close>

text \<open>
  The offscreen-hack patterns are regular expressions, tried with \<^verbatim>\<open>re.match\<close>: the
  pattern has to match some prefix of the title. \<open>AnyChar\<close> is Python's dot, which
  matches every character but the newline.
\<close>

datatype regex =
    Never
  | Eps
  | Lit char
  | AnyChar
  | Seq regex regex
  | Alt regex regex
  | Star regex

fun nullable :: "regex \<Rightarrow> bool" where
  "nullable Never = False"
| "nullable Eps = True"
| "nullable (Lit c) = False"
| "nullable AnyChar = False"
| "nullable (Seq r q) = (nullable r \<and> nullable q)"
| "nullable (Alt r q) = (nullable r \<or> nullable q)"
| "nullable (Star r) = True"

fun deriv :: "char \<Rightarrow> regex \<Rightarrow> regex" where
  "deriv a Never = Never"
| "deriv a Eps = Never"
| "deriv a (Lit c) = (if a = c then Eps else Never)"
| "deriv a AnyChar = (if a = CHR 0x0A then Never else Eps)"
| "deriv a (Seq r q) =
     (if nullable r then Alt (Seq (deriv a r) q) (deriv a q) else Seq (deriv a r) q)"
| "deriv a (Alt r q) = Alt (deriv a r) (deriv a q)"
| "deriv a (Star r) = Seq (deriv a r) (Star r)"

fun re_match :: "regex \<Rightarrow> string \<Rightarrow> bool" where
  "re_match r [] = nullable r"
| "re_match r (a # as) = (nullable r \<or> re_match (deriv a r) as)"

fun lits :: "string \<Rightarrow> regex" where
  "lits [] = Eps"
| "lits (c # cs) = Seq (Lit c) (lits cs)"

definition opt :: "regex \<Rightarrow> regex" where
  "opt r = Alt r Eps"

text \<open>\<^verbatim>\<open>r".*is sharing (your screen|a window)\.?"\<close>\<close>

definition OFFSCREEN_HACK_WINDOW_PATTERNS :: "regex list" where
  "OFFSCREEN_HACK_WINDOW_PATTERNS =
     [Seq (Star AnyChar)
        (Seq (lits ''is sharing '')
           (Seq (Alt (lits ''your screen'') (lits ''a window''))
              (opt (Lit CHR ''.''))))]"

definition OFFSCREEN_SOURCE_WINDOW_NAME :: string where
  "OFFSCREEN_SOURCE_WINDOW_NAME = ''FOOTRON_SOURCE_WINDOW''"

definition PLACARD_WINDOW_NAME :: string where
  "PLACARD_WINDOW_NAME = ''FOOTRON_PLACARD''"

text \<open>\<^verbatim>\<open>needle in hay\<close> on strings: \<open>needle\<close> occurs in \<open>hay\<close> as a contiguous block.\<close>

fun starts_with :: "string \<Rightarrow> string \<Rightarrow> bool" where
  "starts_with [] hay = True"
| "starts_with (c # cs) [] = False"
| "starts_with (c # cs) (h # hs) = (c = h \<and> starts_with cs hs)"

fun str_in :: "string \<Rightarrow> string \<Rightarrow> bool" where
  "str_in needle [] = (needle = [])"
| "str_in needle (h # hs) = (starts_with needle (h # hs) \<or> str_in needle hs)"

text \<open>
  \<^verbatim>\<open>LOADER_WINDOW_NAME\<close> is imported from \<^verbatim>\<open>constants.py\<close>, which does not define it here:
  it is the first parameter of the classifier.
\<close>

definition client_type_from_title :: "string \<Rightarrow> string option \<Rightarrow> ClientType option" where
  "client_type_from_title LOADER_WINDOW_NAME t =
     (case t of
        None \<Rightarrow> None
      | Some ttl \<Rightarrow>
          if ttl = [] then None
          else if list_ex (\<lambda>pattern. re_match pattern ttl) OFFSCREEN_HACK_WINDOW_PATTERNS
            then Some OffscreenHack
          else if str_in OFFSCREEN_SOURCE_WINDOW_NAME ttl then Some OffscreenSource
          else if str_in PLACARD_WINDOW_NAME ttl then Some Placard
          else if str_in LOADER_WINDOW_NAME ttl then Some Loader
          else None)"

section \<open>Requests to the display\<close>

type_synonym 'l result = "'l wm \<times> exn option"

definition and_then :: "'l result \<Rightarrow> ('l wm \<Rightarrow> 'l result) \<Rightarrow> 'l result" where
  "and_then r f = (case r of (s, None) \<Rightarrow> f s | (s, Some e) \<Rightarrow> (s, Some e))"

definition send :: "xcall \<Rightarrow> 'l wm \<Rightarrow> 'l wm" where
  "send c s = s\<lparr>calls := calls s @ [c]\<rparr>"

text \<open>
  What the display answers to the requests that wait for a reply. A reply can be an
  error: \<^verbatim>\<open>BadDrawable\<close> is a subclass of \<^verbatim>\<open>XError\<close>. Requests without a reply are only
  queued by the client library and raise nothing.
\<close>

record attrs =
  override_redirect :: bool

record hints =
  flags :: nat
  hint_x :: int
  hint_y :: int
  max_width :: int
  max_height :: int

record xserver =
  get_attributes :: "wid \<Rightarrow> exn + attrs option"
  get_property :: "wid \<Rightarrow> atom \<Rightarrow> exn + atom list option"
  get_full_property :: "wid \<Rightarrow> atom \<Rightarrow> exn + string option"
  get_struct_prop :: "wid \<Rightarrow> exn + hints option"
  get_geometry :: "wid \<Rightarrow> exn + WindowGeometry"

definition is_XError :: "exn \<Rightarrow> bool" where
  "is_XError e = (e = XError \<or> e = BadDrawable)"

definition raise_placard :: "'l wm \<Rightarrow> 'l wm" where
  "raise_placard s =
     (case placard s of
        None \<Rightarrow> s
      | Some r \<Rightarrow> send (RaiseWindow (parent (objs s r))) s)"

definition raise_loader :: "'l wm \<Rightarrow> 'l wm" where
  "raise_loader s =
     (case loader s of
        None \<Rightarrow> s
      | Some r \<Rightarrow> send (RaiseWindow (parent (objs s r))) s)"

definition preserve_window_order :: "'l wm \<Rightarrow> 'l wm" where
  "preserve_window_order s = send Sync (raise_placard (raise_loader s))"

text \<open>
  \<^verbatim>\<open>_set_ewmh_clients_list\<close> builds the ids with \<^verbatim>\<open>map\<close>, an iterator. The f-string of the
  debug line lists the iterator, whatever the log level, and leaves it exhausted, so the
  \<^verbatim>\<open>list(new_clients)\<close> that is published afterwards is empty.
\<close>

definition drain :: "'a list \<Rightarrow> 'a list \<times> 'a list" where
  "drain it = (it, [])"

definition set_ewmh_clients_list :: "'l wm \<Rightarrow> 'l result" where
  "set_ewmh_clients_list s =
     (let new_clients = map (\<lambda>kv. target (objs s (snd kv))) (clients s);
          (logged, new_clients) = drain new_clients
      in case net_atoms s ClientList of
           None \<Rightarrow> (s, Some KeyError)
         | Some a \<Rightarrow>
             (send (ChangeProperty (root s) a (map int (fst (drain new_clients)))) s, None))"

definition scale_experience_viewport_window :: "WindowGeometry \<Rightarrow> 'l wm \<Rightarrow> 'l wm" where
  "scale_experience_viewport_window g s =
     send (Configure (experience_viewport s) (geo_x g) (geo_y g)
             (max (geo_width g) 1) (max (geo_height g) 1)) s"

definition scale_client :: "ref \<Rightarrow> WindowGeometry \<Rightarrow> 'l wm \<Rightarrow> 'l wm" where
  "scale_client r g s =
     (let client = objs s r;
          in_viewport = in_experience_viewport client;
          w = max (geo_width g) 1;
          h = max (geo_height g) 1;
          s = send (Configure (parent client)
                      (if in_viewport then 0 else geo_x g)
                      (if in_viewport then 0 else geo_y g) w h) s;
          s = send (Configure (target client) 0 0 w h) s
      in preserve_window_order s)"

definition reparent_parent :: "ref \<Rightarrow> wid \<Rightarrow> 'l wm \<Rightarrow> 'l wm" where
  "reparent_parent r new_parent s =
     (let client = objs s r
      in send Sync
           (send (Reparent (parent client) new_parent
                    (geo_x (geometry client)) (geo_y (geometry client))) s))"

definition create_parent_window :: "int \<Rightarrow> int \<Rightarrow> int \<Rightarrow> int \<Rightarrow> 'l wm \<Rightarrow> wid \<times> 'l wm" where
  "create_parent_window px py w h s =
     (next_id s, send (CreateWindow (next_id s) px py w h) (s\<lparr>next_id := Suc (next_id s)\<rparr>))"

section \<open>Layout: \<^verbatim>\<open>set_layout\<close>\<close>

text \<open>
  \<^verbatim>\<open>_setup_workarea\<close> and \<^verbatim>\<open>_update_viewport_geometry\<close> index \<^verbatim>\<open>LAYOUT_GEOMETRY[None]\<close> by a
  scenario and call what they find, without the type tests of \<^verbatim>\<open>_client_geometry\<close>:
  calling a tuple raises \<^verbatim>\<open>TypeError\<close>.
\<close>

definition index_and_call ::
  "ClientType option \<Rightarrow> DisplayScenario \<Rightarrow> 'l kwargs \<Rightarrow> exn + rect" where
  "index_and_call k sc kw =
     (case getitem LAYOUT_GEOMETRY k of
        Inl e \<Rightarrow> Inl e
      | Inr (Factory f) \<Rightarrow> Inl TypeError
      | Inr (Dict d) \<Rightarrow>
          (case getitem d sc of
             Inl e \<Rightarrow> Inl e
           | Inr (Tuple t) \<Rightarrow> Inl TypeError
           | Inr (Lambda f) \<Rightarrow> f kw))"

definition list_of_rect :: "rect \<Rightarrow> int list" where
  "list_of_rect t = (case t of (a, b, c, d) \<Rightarrow> [a, b, c, d])"

definition setup_workarea :: "'l wm \<Rightarrow> 'l result" where
  "setup_workarea s =
     (case net_atoms s WorkArea of
        None \<Rightarrow> (s, Some KeyError)
      | Some a \<Rightarrow>
          (case index_and_call None Production
                  \<lparr>kw_width = None, kw_height = None, kw_geometry = None,
                   kw_layout = Some (layout s)\<rparr> of
             Inl e \<Rightarrow> (s, Some e)
           | Inr t \<Rightarrow> (send (ChangeProperty (root s) a (list_of_rect t)) s, None)))"

fun update_clients :: "datetime option \<Rightarrow> ref list \<Rightarrow> 'l wm \<Rightarrow> 'l result" where
  "update_clients after [] s = (s, None)"
| "update_clients after (r # rs) s =
     (let client = objs s r
      in if \<not> in_experience_viewport client then update_clients after rs s
         else if (case after of None \<Rightarrow> False | Some cutoff \<Rightarrow> created_at client \<le> cutoff)
         then update_clients after rs s
         else case client_geometry s (desired_geometry client) (ctype client) (floating client) of
                Inl e \<Rightarrow> (s, Some e)
              | Inr g \<Rightarrow>
                  update_clients after rs
                    (scale_client r g (s\<lparr>objs := (objs s)(r := client\<lparr>geometry := g\<rparr>)\<rparr>)))"

definition update_viewport_geometry :: "datetime option \<Rightarrow> 'l wm \<Rightarrow> 'l result" where
  "update_viewport_geometry after s =
     (case index_and_call None (display_scenario s)
             \<lparr>kw_width = Some (width s), kw_height = Some (height s), kw_geometry = None,
              kw_layout = Some (layout s)\<rparr> of
        Inl e \<Rightarrow> (s, Some e)
      | Inr t \<Rightarrow>
          and_then
            (update_clients after (map snd (clients s))
               (scale_experience_viewport_window (geometry_of_rect t) s))
            (\<lambda>s. (preserve_window_order s, None)))"

definition set_layout :: "'l \<Rightarrow> datetime option \<Rightarrow> 'l wm \<Rightarrow> 'l result" where
  "set_layout new_layout after s =
     (if new_layout = layout s then (s, None)
      else and_then (setup_workarea (s\<lparr>layout := new_layout\<rparr>))
             (update_viewport_geometry after))"

section \<open>Event handlers\<close>

text \<open>
  The declarations that \<^verbatim>\<open>wm.py\<close> imports and that no file of the repository defines are
  parameters: the marker of the loading window, the default types of \<^verbatim>\<open>clear_viewport\<close>
  and the two enum constructors that \<^verbatim>\<open>_handle_message\<close> calls on values off the wire
  (\<open>None\<close> where the enum has no such value and the constructor raises \<^verbatim>\<open>ValueError\<close>).
  So is the library's conversion \<^verbatim>\<open>datetime.datetime.fromtimestamp(ms / 1000)\<close> of a count
  of milliseconds: it divides in double precision, rounds to microseconds, reads the
  local time zone and raises outside the years it can represent, none of which the
  manager's own code decides. \<open>fromtimestamp_ms\<close> is what it answers for an integer.
\<close>

datatype pyval =
    PNone
  | PBool bool
  | PInt int
  | PFloat int int
  | PStr string
  | PList "pyval list"
  | PDict "(string \<times> pyval) list"

record 'l decls =
  LOADER_WINDOW_NAME :: string
  DEFAULT_CLEAR_TYPES :: "ClientType option list"
  DisplayLayout :: "pyval \<Rightarrow> 'l option"
  ClientType :: "pyval \<Rightarrow> ClientType option"
  fromtimestamp_ms :: "int \<Rightarrow> exn + datetime"

definition FLOATING_WINDOW_TYPES :: "NetAtom list" where
  "FLOATING_WINDOW_TYPES =
     [WmWindowTypeDock, WmWindowTypeToolbar, WmWindowTypeUtility, WmWindowTypeDialog,
      WmWindowTypeMenu, WmWindowTypeSplash]"

definition FLOATING_WINDOW_STATES :: "NetAtom list" where
  "FLOATING_WINDOW_STATES = [WmStateModal, WmStateAbove, WmStateSticky]"

definition delitem :: "('k \<times> 'v) list \<Rightarrow> 'k \<Rightarrow> ('k \<times> 'v) list" where
  "delitem d k = filter (\<lambda>kv. fst kv \<noteq> k) d"

fun setitem :: "('k \<times> 'v) list \<Rightarrow> 'k \<Rightarrow> 'v \<Rightarrow> ('k \<times> 'v) list" where
  "setitem [] k v = [(k, v)]"
| "setitem (kv # d) k v = (if fst kv = k then (k, v) # d else kv # setitem d k v)"

text \<open>
  \<^verbatim>\<open>_window_title\<close> tries \<^verbatim>\<open>_NET_WM_NAME\<close>, then \<^verbatim>\<open>WM_NAME\<close>. The tuple of the two atoms is
  built first, inside the \<^verbatim>\<open>try\<close> that only catches \<^verbatim>\<open>XError\<close>.
\<close>

fun first_title :: "xserver \<Rightarrow> wid \<Rightarrow> atom list \<Rightarrow> exn + string option" where
  "first_title X w [] = Inr None"
| "first_title X w (a # as) =
     (case get_full_property X w a of
        Inl e \<Rightarrow> if e = UnicodeDecodeError then first_title X w as
                 else if is_XError e then Inr None
                 else Inl e
      | Inr None \<Rightarrow> first_title X w as
      | Inr (Some v) \<Rightarrow> Inr (Some v))"

definition window_title :: "xserver \<Rightarrow> 'l wm \<Rightarrow> wid \<Rightarrow> exn + string option" where
  "window_title X s w =
     (case (net_atoms s WmName, wm_atoms s Name) of
        (Some a, Some b) \<Rightarrow> first_title X w [a, b]
      | _ \<Rightarrow> Inl KeyError)"

definition handle_unmap_notify :: "wid \<Rightarrow> 'l wm \<Rightarrow> 'l result" where
  "handle_unmap_notify window_id s =
     (if window_id \<in> client_parents s then (s, None)
      else case map_of (clients s) window_id of
        None \<Rightarrow> (s, None)
      | Some r \<Rightarrow>
          let client = objs s r
          in if ignore_unmaps client > 0
             then (s\<lparr>objs := (objs s)(r := client\<lparr>ignore_unmaps := ignore_unmaps client - 1\<rparr>)\<rparr>,
                   None)
             else
               let s = (if ctype client = Some Placard then s\<lparr>placard := None\<rparr>
                        else if ctype client = Some Loader then s\<lparr>loader := None\<rparr>
                        else s)
               in if parent client \<notin> client_parents s then (s, Some KeyError)
                  else
                    let s = s\<lparr>client_parents := client_parents s - {parent client}\<rparr>;
                        s = send (DestroyWindow (parent client)) s;
                        s = s\<lparr>clients := delitem (clients s) window_id\<rparr>
                    in and_then (set_ewmh_clients_list s)
                         (\<lambda>s. (preserve_window_order s, None)))"

definition handle_configure_notify :: "wid \<Rightarrow> int \<Rightarrow> int \<Rightarrow> 'l wm \<Rightarrow> 'l result" where
  "handle_configure_notify window_id w h s =
     (if window_id = root s then (s\<lparr>width := w, height := h\<rparr>, None) else (s, None))"

definition handle_configure_request ::
  "wid \<Rightarrow> int \<Rightarrow> int \<Rightarrow> int \<Rightarrow> int \<Rightarrow> 'l wm \<Rightarrow> 'l result" where
  "handle_configure_request window_id px py w h s =
     (if window_id \<in> client_parents s then (s, None)
      else case map_of (clients s) window_id of
        None \<Rightarrow> (s, None)
      | Some r \<Rightarrow>
          let desired = WindowGeometry px py w h;
              s = s\<lparr>objs := (objs s)(r := (objs s r)\<lparr>desired_geometry := desired\<rparr>)\<rparr>;
              client = objs s r
          in (case client_geometry s desired (ctype client) (floating client) of
                Inl e \<Rightarrow> (s, Some e)
              | Inr g \<Rightarrow>
                  (scale_client r g (s\<lparr>objs := (objs s)(r := client\<lparr>geometry := g\<rparr>)\<rparr>), None)))"

datatype property_state = PropertyNewValue | PropertyDelete

text \<open>The branch of \<^verbatim>\<open>_handle_property_notify\<close> for a change of the title.\<close>

definition title_changed :: "'l decls \<Rightarrow> xserver \<Rightarrow> ref \<Rightarrow> 'l wm \<Rightarrow> 'l result" where
  "title_changed D X r s =
     (case window_title X s (target (objs s r)) of
        Inl e \<Rightarrow> (s, Some e)
      | Inr new_title \<Rightarrow>
          let old_type = ctype (objs s r);
              new_type = client_type_from_title (LOADER_WINDOW_NAME D) new_title;
              s = s\<lparr>objs := (objs s)(r := (objs s r)\<lparr>title := new_title, ctype := new_type\<rparr>)\<rparr>;
              client = objs s r
          in if old_type = new_type then (s, None)
             else
              (case client_geometry s (desired_geometry client) new_type (floating client) of
                 Inl e \<Rightarrow> (s, Some e)
               | Inr g \<Rightarrow>
                   let s = s\<lparr>objs := (objs s)(r := client\<lparr>geometry := g\<rparr>)\<rparr>;
                       s = scale_client r g s
                   in if new_type = Some Placard \<or> new_type = Some OffscreenSource
                      then (reparent_parent r (root s)
                              (if new_type = Some Placard then s\<lparr>placard := Some r\<rparr> else s),
                            None)
                      else if new_type = None \<or> new_type = Some Loader
                      then (reparent_parent r (experience_viewport s)
                              (if new_type = Some Loader then s\<lparr>loader := Some r\<rparr> else s),
                            None)
                      else (s, None)))"

text \<open>
  The branch for a change of \<^verbatim>\<open>WM_NORMAL_HINTS\<close>. The assignment to \<^verbatim>\<open>desired_geometry\<close>
  and the call of \<^verbatim>\<open>_preserve_window_order\<close> stand inside \<^verbatim>\<open>if self._debug_logging:\<close>.
\<close>

definition normal_hints_changed :: "xserver \<Rightarrow> ref \<Rightarrow> 'l wm \<Rightarrow> 'l result" where
  "normal_hints_changed X r s =
     (case get_struct_prop X (target (objs s r)) of
        Inl e \<Rightarrow> (s, Some e)
      | Inr None \<Rightarrow> (s, None)
      | Inr (Some wm_normal_hints) \<Rightarrow>
          if debug_logging s
          then
            let desired = WindowGeometry (hint_x wm_normal_hints) (hint_y wm_normal_hints)
                            (max_width wm_normal_hints) (max_height wm_normal_hints);
                s = s\<lparr>objs := (objs s)(r := (objs s r)\<lparr>desired_geometry := desired\<rparr>)\<rparr>
            in (preserve_window_order s, None)
          else (s, None))"

definition handle_property_notify ::
  "'l decls \<Rightarrow> xserver \<Rightarrow> wid \<Rightarrow> atom \<Rightarrow> property_state \<Rightarrow> 'l wm \<Rightarrow> 'l result" where
  "handle_property_notify D X window_id ev_atom ev_state s =
     (if window_id \<in> client_parents s then (s, None)
      else case map_of (clients s) window_id of
        None \<Rightarrow> (s, None)
      | Some r \<Rightarrow>
          if ev_state = PropertyDelete then (s, None)
          else
           (case (net_atoms s WmName, wm_atoms s Name) of
              (Some a, Some b) \<Rightarrow>
                if ev_atom = a \<or> ev_atom = b then title_changed D X r s
                else (case wm_atoms s NormalHints of
                   None \<Rightarrow> (s, Some KeyError)
                 | Some n \<Rightarrow>
                     if ev_atom = n then normal_hints_changed X r s
                     else (case net_atoms s WmState of
                        None \<Rightarrow> (s, Some KeyError)
                      | Some w \<Rightarrow>
                          if ev_atom = w
                          then (scale_client r (geometry (objs s r)) s, None)
                          else (s, None)))
            | _ \<Rightarrow> (s, Some KeyError)))"

definition handle_enter_notify :: "wid \<Rightarrow> 'l wm \<Rightarrow> 'l result" where
  "handle_enter_notify window_id s =
     (case net_atoms s ActiveWindow of
        None \<Rightarrow> (s, Some KeyError)
      | Some a \<Rightarrow>
          (send (SetInputFocus window_id)
             (send (ChangeProperty (root s) a [int window_id]) s), None))"

section \<open>Managing a new window\<close>

definition floating_by_type :: "xserver \<Rightarrow> 'l wm \<Rightarrow> wid \<Rightarrow> exn + bool" where
  "floating_by_type X s window =
     (case net_atoms s WmWindowType of
        None \<Rightarrow> Inl KeyError
      | Some a \<Rightarrow>
          (case get_property X window a of
             Inl e \<Rightarrow> Inl e
           | Inr None \<Rightarrow> Inr False
           | Inr (Some []) \<Rightarrow> Inl IndexError
           | Inr (Some (atom_id # rest)) \<Rightarrow>
               (case those (map (net_atoms s) FLOATING_WINDOW_TYPES) of
                  None \<Rightarrow> Inl KeyError
                | Some ids \<Rightarrow> Inr (atom_id \<in> set ids))))"

text \<open>\<^verbatim>\<open>any(self._net_atoms[atom] in ewmh_state.value for atom in ...)\<close> stops at the first hit.\<close>

fun any_state :: "(NetAtom \<rightharpoonup> atom) \<Rightarrow> atom list \<Rightarrow> NetAtom list \<Rightarrow> exn + bool" where
  "any_state na val [] = Inr False"
| "any_state na val (a # as) =
     (case na a of
        None \<Rightarrow> Inl KeyError
      | Some i \<Rightarrow> if i \<in> set val then Inr True else any_state na val as)"

definition floating_by_state :: "xserver \<Rightarrow> 'l wm \<Rightarrow> wid \<Rightarrow> bool \<Rightarrow> exn + bool" where
  "floating_by_state X s window is_floating =
     (case net_atoms s WmState of
        None \<Rightarrow> Inl KeyError
      | Some a \<Rightarrow>
          (case get_property X window a of
             Inl e \<Rightarrow> Inl e
           | Inr None \<Rightarrow> Inr is_floating
           | Inr (Some val) \<Rightarrow>
               (case any_state (net_atoms s) val FLOATING_WINDOW_STATES of
                  Inl e \<Rightarrow> Inl e
                | Inr b \<Rightarrow> Inr (b \<or> is_floating))))"

text \<open>
  \<^verbatim>\<open>Xutil.PPosition | Xutil.PMaxSize\<close> is \<open>4 + 32\<close>. The test of the flags stands inside
  \<^verbatim>\<open>if self._debug_logging:\<close>.
\<close>

definition normal_hints_geometry :: "xserver \<Rightarrow> 'l wm \<Rightarrow> wid \<Rightarrow> exn + WindowGeometry option" where
  "normal_hints_geometry X s window =
     (case get_struct_prop X window of
        Inl e \<Rightarrow> Inl e
      | Inr None \<Rightarrow> Inr None
      | Inr (Some wm_normal_hints) \<Rightarrow>
          Inr (if debug_logging s \<and> (flags wm_normal_hints AND 36) \<noteq> 0
               then Some (WindowGeometry (hint_x wm_normal_hints) (hint_y wm_normal_hints)
                            (max_width wm_normal_hints) (max_height wm_normal_hints))
               else None))"

text \<open>
  The second half of \<^verbatim>\<open>_manage_new_window\<close>, from the \<^verbatim>\<open>WM_STATE\<close> property on. A new
  \<^verbatim>\<open>Client\<close> starts with \<^verbatim>\<open>ignore_unmaps\<close> at its default, which the model takes as 0
  (the class is declared in \<^verbatim>\<open>types.py\<close>).
\<close>

definition register_window ::
  "'l decls \<Rightarrow> xserver \<Rightarrow> datetime \<Rightarrow> wid \<Rightarrow> bool \<Rightarrow> WindowGeometry option \<Rightarrow> WindowGeometry \<Rightarrow>
   'l wm \<Rightarrow> 'l result" where
  "register_window D X now window is_floating hints_geometry x_geometry s =
     (case wm_atoms s State of
        None \<Rightarrow> (s, Some KeyError)
      | Some st \<Rightarrow>
          let s = send (ChangeProperty window st [1]) s
          in (case window_title X s window of
                Inl e \<Rightarrow> (s, Some e)
              | Inr ttl \<Rightarrow>
                  let client_type = client_type_from_title (LOADER_WINDOW_NAME D) ttl;
                      is_floating = (is_floating \<and> client_type = None);
                      desired = (case hints_geometry of Some g \<Rightarrow> g | None \<Rightarrow> x_geometry)
                  in (case client_geometry s desired client_type is_floating of
                        Inl e \<Rightarrow> (s, Some e)
                      | Inr g \<Rightarrow>
                          let s = send (ChangeProperty window (xembed_info_atom s) [0, 1]) s;
                              s = send (ChangeAttributes window) s;
                              (parent_id, s) = create_parent_window 0 0 1 1 s;
                              s = send (Reparent window parent_id 0 0) s;
                              s = send (MapWindow parent_id) s;
                              s = s\<lparr>client_parents := insert parent_id (client_parents s)\<rparr>;
                              s = send Sync s;
                              r = next_ref s;
                              client = \<lparr>target = window, parent = parent_id, geometry = g,
                                        desired_geometry = desired, title = ttl,
                                        ctype = client_type, floating = is_floating,
                                        created_at = now, ignore_unmaps = 0\<rparr>;
                              s = s\<lparr>objs := (objs s)(r := client), next_ref := Suc r\<rparr>;
                              s = (if client_type = None \<or> client_type = Some Loader
                                   then reparent_parent r (experience_viewport s) s else s);
                              s = (if client_type = Some Placard then s\<lparr>placard := Some r\<rparr>
                                   else if client_type = Some Loader then s\<lparr>loader := Some r\<rparr>
                                   else s);
                              s = scale_client r g s;
                              s = send (MapWindow window) s;
                              s = preserve_window_order s;
                              s = s\<lparr>clients := setitem (clients s) window r\<rparr>
                          in set_ewmh_clients_list s)))"

definition manage_new_window :: "'l decls \<Rightarrow> xserver \<Rightarrow> datetime \<Rightarrow> wid \<Rightarrow> 'l wm \<Rightarrow> 'l result" where
  "manage_new_window D X now window s =
     (if map_of (clients s) window \<noteq> None then (s, None)
      else case floating_by_type X s window of
        Inl e \<Rightarrow> (s, Some e)
      | Inr f1 \<Rightarrow>
          (case floating_by_state X s window f1 of
             Inl e \<Rightarrow> (s, Some e)
           | Inr f2 \<Rightarrow>
               (case normal_hints_geometry X s window of
                  Inl e \<Rightarrow> (s, Some e)
                | Inr hints_geometry \<Rightarrow>
                    (case get_geometry X window of
                       Inl e \<Rightarrow> if e = BadDrawable then (s, None) else (s, Some e)
                     | Inr x_geometry \<Rightarrow>
                         register_window D X now window f2 hints_geometry x_geometry
                           (send (ChangeAttributes window) s)))))"

text \<open>
  \<^verbatim>\<open>_handle_map_request\<close> compares \<^verbatim>\<open>ev.window.id\<close>, an integer, with the window object
  \<^verbatim>\<open>self._experience_viewport\<close>. The client library answers such a comparison with the
  Python identity of the object, never with its X id: the disjunct is false.
\<close>

definition id_equals_window :: "wid \<Rightarrow> wid \<Rightarrow> bool" where
  "id_equals_window n window = False"

definition handle_map_request :: "'l decls \<Rightarrow> xserver \<Rightarrow> datetime \<Rightarrow> wid \<Rightarrow> 'l wm \<Rightarrow> 'l result" where
  "handle_map_request D X now window s =
     (case get_attributes X window of
        Inl e \<Rightarrow> if is_XError e then (s, None) else (s, Some e)
      | Inr None \<Rightarrow> (s, None)
      | Inr (Some a) \<Rightarrow>
          if override_redirect a \<or> window \<in> client_parents s
             \<or> id_equals_window window (experience_viewport s)
          then (s, None)
          else manage_new_window D X now window s)"

section \<open>Clearing the viewport\<close>

text \<open>
  The loop of \<^verbatim>\<open>clear_viewport\<close> over a snapshot of the clients, with its two counters
  \<^verbatim>\<open>windows_killed\<close> and \<^verbatim>\<open>windows_skipped\<close>, which only reach the debug log.
\<close>

fun clear_clients ::
  "ClientType option list \<Rightarrow> datetime \<Rightarrow> ref list \<Rightarrow> nat \<times> nat \<Rightarrow> 'l wm \<Rightarrow> 'l wm \<times> nat \<times> nat" where
  "clear_clients clear_types before [] (windows_killed, windows_skipped) s =
     (s, windows_killed, windows_skipped)"
| "clear_clients clear_types before (r # rs) (windows_killed, windows_skipped) s =
     (let client = objs s r
      in if ctype client \<notin> set clear_types
         then clear_clients clear_types before rs (windows_killed, windows_skipped) s
         else if created_at client > before
         then clear_clients clear_types before rs (windows_killed, windows_skipped + 1) s
         else clear_clients clear_types before rs (windows_killed + 1, windows_skipped)
                (send (KillClient (target client)) s))"

definition clear_viewport ::
  "'l decls \<Rightarrow> datetime \<Rightarrow> ClientType option list option \<Rightarrow> 'l wm \<Rightarrow> 'l result" where
  "clear_viewport D before include s =
     (let clear_types = (case include of Some ts \<Rightarrow> ts | None \<Rightarrow> DEFAULT_CLEAR_TYPES D);
          (s, windows_killed, windows_skipped) =
             clear_clients clear_types before (map snd (clients s)) (0, 0) s
      in and_then (set_ewmh_clients_list s) (\<lambda>s. (preserve_window_order s, None)))"

section \<open>The command channel\<close>

text \<open>
  A message is what \<^verbatim>\<open>recv_json\<close> decoded: any JSON value. \<^verbatim>\<open>message["type"]\<close> raises
  \<^verbatim>\<open>KeyError\<close> on a dict without the key and \<^verbatim>\<open>TypeError\<close> on everything that is not a
  dict. \<^verbatim>\<open>isinstance(v, int)\<close> holds for integers and for booleans.
\<close>

definition subscript :: "pyval \<Rightarrow> string \<Rightarrow> exn + pyval" where
  "subscript v k = (case v of PDict d \<Rightarrow> getitem d k | _ \<Rightarrow> Inl TypeError)"

definition get_or_none :: "pyval \<Rightarrow> string \<Rightarrow> pyval" where
  "get_or_none v k =
     (case v of
        PDict d \<Rightarrow> (case map_of d k of Some x \<Rightarrow> x | None \<Rightarrow> PNone)
      | _ \<Rightarrow> PNone)"

definition contains_key :: "pyval \<Rightarrow> string \<Rightarrow> bool" where
  "contains_key v k = (case v of PDict d \<Rightarrow> map_of d k \<noteq> None | _ \<Rightarrow> False)"

definition isinstance_int :: "pyval \<Rightarrow> bool" where
  "isinstance_int v = (case v of PInt n \<Rightarrow> True | PBool b \<Rightarrow> True | _ \<Rightarrow> False)"

definition isinstance_str :: "pyval \<Rightarrow> bool" where
  "isinstance_str v = (case v of PStr x \<Rightarrow> True | _ \<Rightarrow> False)"

definition int_value :: "pyval \<Rightarrow> int" where
  "int_value v = (case v of PInt n \<Rightarrow> n | PBool b \<Rightarrow> (if b then 1 else 0) | _ \<Rightarrow> 0)"

text \<open>
  \<^verbatim>\<open>list(map(ClientType, include))\<close>: a list gives its items, a string its characters, a
  dict its keys; a number is not iterable.
\<close>

definition iterate :: "pyval \<Rightarrow> exn + pyval list" where
  "iterate v =
     (case v of
        PList xs \<Rightarrow> Inr xs
      | PStr cs \<Rightarrow> Inr (map (\<lambda>c. PStr [c]) cs)
      | PDict d \<Rightarrow> Inr (map (\<lambda>kv. PStr (fst kv)) d)
      | _ \<Rightarrow> Inl TypeError)"

definition client_types_of :: "'l decls \<Rightarrow> pyval \<Rightarrow> exn + ClientType option list" where
  "client_types_of D include =
     (case iterate include of
        Inl e \<Rightarrow> Inl e
      | Inr xs \<Rightarrow>
          (case those (map (ClientType D) xs) of
             None \<Rightarrow> Inl ValueError
           | Some ts \<Rightarrow> Inr (map Some ts)))"

definition layout_message :: "'l decls \<Rightarrow> pyval \<Rightarrow> 'l wm \<Rightarrow> 'l result" where
  "layout_message D message s =
     (if \<not> contains_key message ''layout'' then (s, None)
      else
        let new_layout = get_or_none message ''layout''
        in if \<not> isinstance_str new_layout then (s, None)
           else
             let after = get_or_none message ''after''
             in if after \<noteq> PNone \<and> \<not> isinstance_int after then (s, None)
                else (case DisplayLayout D new_layout of
                        None \<Rightarrow> (s, Some ValueError)
                      | Some l \<Rightarrow>
                          if after = PNone then set_layout l None s
                          else (case fromtimestamp_ms D (int_value after) of
                                  Inl e \<Rightarrow> (s, Some e)
                                | Inr t \<Rightarrow> set_layout l (Some t) s)))"

definition clear_viewport_message :: "'l decls \<Rightarrow> pyval \<Rightarrow> 'l wm \<Rightarrow> 'l result" where
  "clear_viewport_message D message s =
     (if \<not> contains_key message ''before'' then (s, None)
      else
        let before = get_or_none message ''before''
        in if \<not> isinstance_int before then (s, None)
           else
             let include = get_or_none message ''include''
             in (case fromtimestamp_ms D (int_value before) of
                   Inl e \<Rightarrow> (s, Some e)
                 | Inr t \<Rightarrow>
                     if include = PNone then clear_viewport D t None s
                     else (case client_types_of D include of
                             Inl e \<Rightarrow> (s, Some e)
                           | Inr ts \<Rightarrow> clear_viewport D t (Some ts) s)))"

definition handle_message :: "'l decls \<Rightarrow> pyval \<Rightarrow> 'l wm \<Rightarrow> 'l result" where
  "handle_message D message s =
     (case subscript message ''type'' of
        Inl e \<Rightarrow> (s, Some e)
      | Inr message_type \<Rightarrow>
          if message_type = PStr ''layout'' then layout_message D message s
          else if message_type = PStr ''clear_viewport'' then clear_viewport_message D message s
          else (s, None))"

text \<open>
  \<^verbatim>\<open>_process_messages\<close> takes messages off the queue until \<^verbatim>\<open>get_nowait\<close> raises
  \<^verbatim>\<open>queue.Empty\<close>; it returns what is left of the queue. An exception of
  \<^verbatim>\<open>_handle_message\<close> is not caught here.
\<close>

fun process_messages :: "'l decls \<Rightarrow> pyval list \<Rightarrow> 'l wm \<Rightarrow> 'l wm \<times> pyval list \<times> exn option" where
  "process_messages D [] s = (s, [], None)"
| "process_messages D (message # queue) s =
     (case handle_message D message s of
        (s, Some e) \<Rightarrow> (s, queue, Some e)
      | (s, None) \<Rightarrow> process_messages D queue s)"

section \<open>The control loop\<close>

text \<open>
  The events of the display. \<open>OtherEvent\<close> stands for every event whose type is not a key
  of \<^verbatim>\<open>_event_handlers\<close>.
\<close>

datatype event =
    MapRequest wid
  | UnmapNotify wid
  | ConfigureNotify wid int int
  | ConfigureRequest wid int int int int
  | PropertyNotify wid atom property_state
  | EnterNotify wid
  | OtherEvent nat

definition has_handler :: "event \<Rightarrow> bool" where
  "has_handler ev = (case ev of OtherEvent t \<Rightarrow> False | _ \<Rightarrow> True)"

definition event_handler :: "'l decls \<Rightarrow> xserver \<Rightarrow> datetime \<Rightarrow> event \<Rightarrow> 'l wm \<Rightarrow> 'l result" where
  "event_handler D X now ev s =
     (case ev of
        MapRequest w \<Rightarrow> handle_map_request D X now w s
      | UnmapNotify w \<Rightarrow> handle_unmap_notify w s
      | ConfigureNotify w a b \<Rightarrow> handle_configure_notify w a b s
      | ConfigureRequest w a b c d \<Rightarrow> handle_configure_request w a b c d s
      | PropertyNotify w a st \<Rightarrow> handle_property_notify D X w a st s
      | EnterNotify w \<Rightarrow> handle_enter_notify w s
      | OtherEvent t \<Rightarrow> (s, Some KeyError))"

text \<open>
  One turn of the \<^verbatim>\<open>while True\<close> of \<^verbatim>\<open>_loop\<close>, for the event that \<^verbatim>\<open>next_event\<close> returned and
  the queue as it stands: the state, the queue and the exception that ends the loop, if
  any.
\<close>

definition loop_iteration ::
  "'l decls \<Rightarrow> xserver \<Rightarrow> datetime \<Rightarrow> event \<Rightarrow> pyval list \<Rightarrow> 'l wm \<Rightarrow>
   'l wm \<times> pyval list \<times> exn option" where
  "loop_iteration D X now ev queue s =
     (if \<not> has_handler ev then (s, queue, None)
      else case event_handler D X now ev s of
        (s, Some e) \<Rightarrow> (s, queue, Some e)
      | (s, None) \<Rightarrow> process_messages D queue s)"

section \<open>Notions used in the statements\<close>

text \<open>
  The requests of \<^verbatim>\<open>_preserve_window_order\<close>: the wrapper of the Loader is raised, then the
  wrapper of the Placard, each if the singleton is set.
\<close>

definition raises_of :: "'l wm \<Rightarrow> xcall list" where
  "raises_of s =
     (case loader s of None \<Rightarrow> [] | Some r \<Rightarrow> [RaiseWindow (parent (objs s r))])
     @ (case placard s of None \<Rightarrow> [] | Some r \<Rightarrow> [RaiseWindow (parent (objs s r))])"

text \<open>
  The commands of a queue handled in order, each from the state its predecessors left:
  the state they leave, and whether each of them returns normally.
\<close>

definition handled_in_order :: "'l decls \<Rightarrow> pyval list \<Rightarrow> 'l wm \<Rightarrow> 'l wm" where
  "handled_in_order D queue s = foldl (\<lambda>s message. fst (handle_message D message s)) s queue"

fun all_return :: "'l decls \<Rightarrow> pyval list \<Rightarrow> 'l wm \<Rightarrow> bool" where
  "all_return D [] s = True"
| "all_return D (message # queue) s =
     (snd (handle_message D message s) = None
      \<and> all_return D queue (fst (handle_message D message s)))"

text \<open>The windows a trace asks to close, in order.\<close>

fun kill_requests :: "xcall list \<Rightarrow> wid list" where
  "kill_requests [] = []"
| "kill_requests (KillClient w # cs) = w # kill_requests cs"
| "kill_requests (c # cs) = kill_requests cs"

text \<open>
  The words a regular expression matches, and what \<^verbatim>\<open>re.match\<close> and \<^verbatim>\<open>in\<close> decide: some
  prefix of the string is such a word; the needle occurs in the string.
\<close>

inductive_set star :: "string set \<Rightarrow> string set" for A :: "string set" where
  star_empty: "[] \<in> star A"
| star_more: "u \<in> A \<Longrightarrow> v \<in> star A \<Longrightarrow> u @ v \<in> star A"

fun lang :: "regex \<Rightarrow> string set" where
  "lang Never = {}"
| "lang Eps = {[]}"
| "lang (Lit c) = {[c]}"
| "lang AnyChar = {[c] |c. c \<noteq> CHR 0x0A}"
| "lang (Seq r q) = {u @ v |u v. u \<in> lang r \<and> v \<in> lang q}"
| "lang (Alt r q) = lang r \<union> lang q"
| "lang (Star r) = star (lang r)"

definition matches_prefix :: "regex \<Rightarrow> string \<Rightarrow> bool" where
  "matches_prefix r s = (\<exists>p q. s = p @ q \<and> p \<in> lang r)"

definition occurs_in :: "string \<Rightarrow> string \<Rightarrow> bool" where
  "occurs_in needle hay = (\<exists>u v. hay = u @ needle @ v)"

section \<open>Example states\<close>

text \<open>
  A manager under the production scenario with the atoms that \<^verbatim>\<open>_setup_atoms\<close> interns
  (\<^verbatim>\<open>WM_NAME\<close> and \<^verbatim>\<open>WM_NORMAL_HINTS\<close> are the predefined atoms 39 and 40), a display that
  answers every window alike, and values for the declarations that are parameters. A
  datetime of the examples is a count of microseconds. The example conversion answers
  the timestamps from 1970 to 2038, where the double of \<^verbatim>\<open>ms / 1000\<close> is less than a
  quarter of a microsecond away from the quotient and the library's microseconds are
  exactly \<open>ms * 1000\<close>; what it answers elsewhere is arbitrary, and no example leaves that
  range.
\<close>

definition example_decls :: "string decls" where
  "example_decls =
     \<lparr>LOADER_WINDOW_NAME = ''FOOTRON_LOADING'',
      DEFAULT_CLEAR_TYPES = [None],
      DisplayLayout = (\<lambda>v. if v = PStr ''full'' then Some ''full''
                            else if v = PStr ''wide'' then Some ''wide'' else None),
      ClientType = (\<lambda>v. if v = PStr ''placard'' then Some Placard
                         else if v = PStr ''loader'' then Some Loader else None),
      fromtimestamp_ms = (\<lambda>ms. if 0 \<le> ms \<and> ms < 2147483648000 then Inr (ms * 1000)
                               else Inl OverflowError)\<rparr>"

definition example_title :: "wid \<Rightarrow> string" where
  "example_title w =
     (if w = 100 then ''FOOTRON_PLACARD''
      else if w = 101 then ''FOOTRON_PLACARD 2''
      else ''Experience'')"

definition example_xserver :: xserver where
  "example_xserver =
     \<lparr>get_attributes = (\<lambda>w. Inr (Some \<lparr>override_redirect = False\<rparr>)),
      get_property = (\<lambda>w a. Inr None),
      get_full_property = (\<lambda>w a. if a = 303 then Inr (Some (example_title w)) else Inr None),
      get_struct_prop = (\<lambda>w. Inr (Some \<lparr>flags = 36, hint_x = 10, hint_y = 20,
                                          max_width = 300, max_height = 400\<rparr>)),
      get_geometry = (\<lambda>w. Inr (WindowGeometry 5 6 640 480))\<rparr>"

definition example_client :: Client where
  "example_client =
     \<lparr>target = 0, parent = 0, geometry = WindowGeometry 0 0 0 0,
      desired_geometry = WindowGeometry 0 0 0 0, title = None, ctype = None,
      floating = False, created_at = 0, ignore_unmaps = 0\<rparr>"

definition example_wm :: "string wm" where
  "example_wm =
     \<lparr>width = 3840, height = 2160, layout = ''full'',
      net_atoms = map_of
        [(Supported, 301), (ActiveWindow, 302), (WmName, 303), (ClientList, 304),
         (WmCheck, 305), (WmState, 306), (WmWindowType, 307), (WmWindowTypeDock, 308),
         (WmWindowTypeToolbar, 309), (WmWindowTypeMenu, 310), (WmWindowTypeSplash, 311),
         (WmWindowTypeDialog, 312), (WmWindowTypeUtility, 313), (WmStateModal, 314),
         (WmStateAbove, 315), (WmStateSticky, 316)],
      wm_atoms = map_of
        [(DeleteWindow, 317), (Protocols, 318), (Name, 39), (State, 319), (NormalHints, 40)],
      xembed_info_atom = 320,
      debug_logging = False,
      display_scenario = Production,
      placard = None, loader = None, clients = [], client_parents = {},
      root = 1, experience_viewport = 2,
      objs = (\<lambda>r. example_client), next_ref = 0, next_id = 1000, calls = []\<rparr>"

definition placard_client :: "wid \<Rightarrow> wid \<Rightarrow> datetime \<Rightarrow> Client" where
  "placard_client w p t =
     \<lparr>target = w, parent = p, geometry = WindowGeometry 0 0 715 1758,
      desired_geometry = WindowGeometry 5 6 640 480, title = Some (example_title w),
      ctype = Some Placard, floating = False, created_at = t, ignore_unmaps = 0\<rparr>"

definition experience_client :: "wid \<Rightarrow> wid \<Rightarrow> datetime \<Rightarrow> Client" where
  "experience_client w p t =
     \<lparr>target = w, parent = p, geometry = WindowGeometry 978 0 3125 2160,
      desired_geometry = WindowGeometry 5 6 640 480, title = Some (example_title w),
      ctype = None, floating = False, created_at = t, ignore_unmaps = 0\<rparr>"

definition one_placard :: "string wm" where
  "one_placard = example_wm
     \<lparr>placard := Some 0, clients := [(100, 0)], client_parents := {1000},
      objs := (\<lambda>r. example_client)(0 := placard_client 100 1000 50),
      next_ref := 1, next_id := 1001\<rparr>"

definition two_placards :: "string wm" where
  "two_placards = example_wm
     \<lparr>placard := Some 1, clients := [(100, 0), (101, 1)], client_parents := {1000, 1001},
      objs := (\<lambda>r. example_client)(0 := placard_client 100 1000 50, 1 := placard_client 101 1001 60),
      next_ref := 2, next_id := 1002\<rparr>"

definition one_experience :: "string wm" where
  "one_experience = example_wm
     \<lparr>clients := [(102, 0)], client_parents := {1000},
      objs := (\<lambda>r. example_client)(0 := experience_client 102 1000 50),
      next_ref := 1, next_id := 1001\<rparr>"

text \<open>
  The first placard after its window has changed its title to \<open>Experience\<close>, as the display
  \<open>retitled_xserver\<close> reports it: the client is ordinary content now.
\<close>

definition retitled_xserver :: xserver where
  "retitled_xserver = example_xserver
     \<lparr>get_full_property := (\<lambda>w a. if a = 303 then Inr (Some ''Experience'') else Inr None)\<rparr>"

definition retitled_placard :: "string wm" where
  "retitled_placard = one_placard
     \<lparr>objs := (objs one_placard)(0 := (placard_client 100 1000 50)
        \<lparr>geometry := WindowGeometry 978 0 3125 2160, title := Some ''Experience'',
         ctype := None\<rparr>)\<rparr>"

definition bad_include_message :: pyval where
  "bad_include_message =
     PDict [(''type'', PStr ''clear_viewport''), (''before'', PInt 0), (''include'', PInt 5)]"

definition clear_placards_message :: pyval where
  "clear_placards_message =
     PDict [(''type'', PStr ''clear_viewport''), (''before'', PInt 1),
            (''include'', PList [PStr ''placard''])]"

definition unknown_message :: pyval where
  "unknown_message = PDict [(''type'', PStr ''ping'')]"

definition hack_placard_title :: string where
  "hack_placard_title = ''Meet is sharing your screen. FOOTRON_PLACARD''"

section \<open>The geometry policy\<close>

lemma getitem_simps:
  "getitem [] k = Inl KeyError"
  "getitem ((k', v) # d) k = (if k' = k then Inr v else getitem d k)"
  by (simp_all add: getitem_def)

declare excess_bits.simps [simp del]

lemma excess_bits_le: "n < 2 ^ (53 + k) \<Longrightarrow> excess_bits n \<le> k"
proof (induction k arbitrary: n)
  case 0
  then show ?case by (simp add: excess_bits.simps)
next
  case (Suc k)
  show ?case
  proof (cases "n < 2 ^ 53")
    case True
    then show ?thesis by (simp add: excess_bits.simps)
  next
    case False
    from Suc.prems have "n < 2 * 2 ^ (53 + k)" by (simp only: add_Suc_right power_Suc)
    then have "n div 2 < 2 ^ (53 + k)" by arith
    from Suc.IH [OF this] False show ?thesis
      by (subst excess_bits.simps) simp
  qed
qed

lemma round_half_even_lower: "(n div 2 ^ e) \<le> round_half_even n e"
  by (simp add: round_half_even_def Let_def)

lemma round_half_even_upper: "2 * (round_half_even n e * 2 ^ e) \<le> 2 * n + 2 ^ e"
proof -
  define P :: nat where "P = 2 ^ e"
  define q where "q = n div P"
  define r where "r = n mod P"
  have n: "n = q * P + r" by (simp add: q_def r_def)
  have rP: "r < P" by (simp add: r_def P_def)
  have "round_half_even n e = q \<or> (round_half_even n e = q + 1 \<and> P \<le> 2 * r)"
    by (auto simp: round_half_even_def Let_def q_def r_def P_def)
  then show ?thesis
  proof
    assume "round_half_even n e = q"
    then show ?thesis using n by (simp add: P_def [symmetric])
  next
    assume a: "round_half_even n e = q + 1 \<and> P \<le> 2 * r"
    then have "2 * (round_half_even n e * P) = 2 * (q * P) + 2 * P"
      by (simp add: algebra_simps)
    also have "\<dots> \<le> 2 * (q * P) + 2 * r + P" using a by simp
    also have "\<dots> = 2 * n + P" using n by simp
    finally show ?thesis by (simp add: P_def)
  qed
qed


lemma to_double_small: "n < 2 ^ 53 \<Longrightarrow> to_double n = (n, 0)"
  by (simp add: to_double_def excess_bits.simps round_half_even_def)

lemma times_0_2_nat:
  assumes "W < 2 ^ 32"
  shows "(round_half_even (W * DOUBLE_0_2) (excess_bits (W * DOUBLE_0_2))
            * 2 ^ excess_bits (W * DOUBLE_0_2)) div 2 ^ 54 = W div 5"
proof -
  define n where "n = W * DOUBLE_0_2"
  define e where "e = excess_bits n"
  define P :: nat where "P = 2 ^ e"
  define Q :: nat where "Q = 2 ^ 54"
  define m where "m = round_half_even n e"
  define k where "k = W div 5"
  define j where "j = W mod 5"
  have W: "W = 5 * k + j" and j: "j < 5" by (simp_all add: k_def j_def)
  have five: "5 * DOUBLE_0_2 = Q + 1" by (simp add: DOUBLE_0_2_def Q_def)
  have "n = k * (5 * DOUBLE_0_2) + j * DOUBLE_0_2"
    by (simp add: n_def W algebra_simps)
  then have n_eq: "n = k * Q + k + j * DOUBLE_0_2"
    by (simp only: five) (simp add: algebra_simps)
  have "n < 2 ^ 32 * DOUBLE_0_2"
    using assms by (simp add: n_def DOUBLE_0_2_def)
  also have "\<dots> < 2 ^ (53 + 31)" by (simp add: DOUBLE_0_2_def)
  finally have e31: "e \<le> 31" unfolding e_def by (rule excess_bits_le)
  then have "(2::nat) ^ e \<le> 2 ^ 31" by (intro power_increasing) simp_all
  then have P31: "P \<le> 2 ^ 31" by (simp only: P_def)
  have "(2::nat) ^ 54 = 2 ^ ((54 - e) + e)" using e31 by simp
  then have split: "Q = 2 ^ (54 - e) * P"
    by (simp only: Q_def P_def power_add)
  have lower: "k * Q \<le> m * P"
  proof -
    have "(k * 2 ^ (54 - e)) * P = k * Q"
      by (simp only: split mult.assoc)
    also have "\<dots> \<le> n" by (simp add: n_eq)
    finally have "k * 2 ^ (54 - e) \<le> n div P"
      by (simp add: P_def less_eq_div_iff_mult_less_eq)
    also have "\<dots> \<le> m" unfolding m_def P_def by (rule round_half_even_lower)
    finally have "(k * 2 ^ (54 - e)) * P \<le> m * P" by simp
    then show ?thesis by (simp only: split mult.assoc)
  qed
  have upper: "m * P < Suc k * Q"
  proof -
    have "2 * (m * P) \<le> 2 * n + P"
      unfolding m_def P_def by (rule round_half_even_upper)
    moreover have "k < 2 ^ 32" using assms by (simp add: k_def)
    moreover have "j * DOUBLE_0_2 \<le> 4 * DOUBLE_0_2" using j by simp
    moreover have "2 * 2 ^ 32 + 8 * DOUBLE_0_2 + 2 ^ 31 < 2 * Q"
      by (simp add: DOUBLE_0_2_def Q_def)
    ultimately have "2 * (m * P) < 2 * (k * Q) + 2 * Q"
      using n_eq P31 by linarith
    then show ?thesis by simp
  qed
  have "(m * P) div Q = k"
    using lower upper by (intro div_nat_eqI) (simp_all add: algebra_simps)
  then show ?thesis
    by (simp add: m_def P_def e_def n_def k_def Q_def)
qed

lemma int_times_0_2_screen:
  assumes "0 \<le> w" and "w < 2 ^ 32"
  shows "int_times_0_2 w = Inr (w div 5)"
proof -
  define W where "W = nat w"
  have W: "W < 2 ^ 32" and w: "w = int W" using assms by (simp_all add: W_def)
  have "W < 2 ^ 53" using W by simp
  then have d: "to_double W = (W, 0)"
    by (simp add: to_double_small)
  have p: "to_double (W * DOUBLE_0_2) =
      (round_half_even (W * DOUBLE_0_2) (excess_bits (W * DOUBLE_0_2)),
       excess_bits (W * DOUBLE_0_2))"
    by (simp add: to_double_def Let_def)
  have ov: "\<not> (2::nat) ^ 1024 \<le> W" using W by simp
  have "int_times_0_2 (int W) = Inr (int (W div 5))"
    using ov times_0_2_nat [OF W]
    by (simp add: int_times_0_2_def d p)
  then show ?thesis by (simp add: w zdiv_int)
qed

text \<open>
  Claim C1. For every combination the table defines, \<^verbatim>\<open>_client_geometry\<close> returns the
  documented rectangle, whatever the layout and the desired geometry: a Placard under the
  fullscreen scenario gets the left strip \<open>(0, 0, width div 5, height)\<close>, a fifth of the
  width rounded down (for a screen width below \<open>2\<^sup>3\<^sup>2\<close>, where the double product
  truncates to it), under fit4k and production the literal \<open>(0, 0, 715, 1758)\<close>; generic
  content that is not floating gets the whole screen under fullscreen, the literal
  \<open>(715, 0, 3125, 1758)\<close> under fit4k and \<open>(978, 0, 3125, height)\<close> under production; an
  OffscreenSource gets \<open>(width, 0, desired width, desired height)\<close> and an OffscreenHack
  \<open>(0, height, desired width, desired height)\<close>.
\<close>

theorem client_geometry_table:
  "(0 \<le> width s \<and> width s < 2 ^ 32 \<longrightarrow>
      client_geometry (s\<lparr>display_scenario := Fullscreen\<rparr>) d (Some Placard) f
        = Inr (WindowGeometry 0 0 (width s div 5) (height s)))
   \<and> client_geometry (s\<lparr>display_scenario := Fit4k\<rparr>) d (Some Placard) f
     = Inr (WindowGeometry 0 0 715 1758)
   \<and> client_geometry (s\<lparr>display_scenario := Production\<rparr>) d (Some Placard) f
     = Inr (WindowGeometry 0 0 715 1758)
   \<and> client_geometry (s\<lparr>display_scenario := Fullscreen\<rparr>) d None False
     = Inr (WindowGeometry 0 0 (width s) (height s))
   \<and> client_geometry (s\<lparr>display_scenario := Fit4k\<rparr>) d None False
     = Inr (WindowGeometry 715 0 3125 1758)
   \<and> client_geometry (s\<lparr>display_scenario := Production\<rparr>) d None False
     = Inr (WindowGeometry 978 0 3125 (height s))
   \<and> client_geometry s d (Some OffscreenSource) f
     = Inr (WindowGeometry (width s) 0 (geo_width d) (geo_height d))
   \<and> client_geometry s d (Some OffscreenHack) f
     = Inr (WindowGeometry 0 (height s) (geo_width d) (geo_height d))"
  by (simp add: client_geometry_def LAYOUT_GEOMETRY_def getitem_simps geometry_of_rect_def
      placard_fullscreen_def generic_fullscreen_def generic_production_def
      offscreen_source_def offscreen_hack_def int_times_0_2_screen)

theorem client_geometry_table_witness:
  "0 \<le> width example_wm \<and> width example_wm < 2 ^ 32
   \<and> client_geometry (example_wm\<lparr>display_scenario := Fullscreen\<rparr>)
        (WindowGeometry 5 6 640 480) (Some Placard) False
       = Inr (WindowGeometry 0 0 768 2160)"
proof -
  have w: "width example_wm = 3840" and h: "height example_wm = 2160"
    by (simp_all add: example_wm_def)
  from client_geometry_table [of example_wm "WindowGeometry 5 6 640 480" False] w h
  show ?thesis by simp
qed

lemma client_geometry_floating: "client_geometry s d None True = Inr d"
  by (simp add: client_geometry_def)

lemma client_geometry_not_desired:
  assumes "\<not> (t = None \<and> f)"
  shows "client_geometry s (WindowGeometry 1 1 1 1) t f \<noteq> Inr (WindowGeometry 1 1 1 1)"
proof (cases t)
  case None
  with assms have "\<not> f" by simp
  with None show ?thesis
    by (cases "display_scenario s")
       (simp_all add: client_geometry_def LAYOUT_GEOMETRY_def getitem_simps geometry_of_rect_def
         generic_fullscreen_def generic_production_def)
next
  case (Some ct)
  then show ?thesis
    by (cases ct; cases "display_scenario s")
       (simp_all add: client_geometry_def LAYOUT_GEOMETRY_def getitem_simps geometry_of_rect_def
         placard_fullscreen_def offscreen_source_def offscreen_hack_def split: sum.splits)
qed

text \<open>
  Claim C9. With no type and the floating flag set, \<^verbatim>\<open>_client_geometry\<close> returns the desired
  geometry as it is, and this is the only pair of type and flag for which every desired
  geometry comes back unchanged.
\<close>

theorem floating_untyped_only:
  "client_geometry s d None True = Inr d
   \<and> ((\<forall>d'. client_geometry s d' t f = Inr d') \<longleftrightarrow> (t = None \<and> f))"
proof (rule conjI)
  show "client_geometry s d None True = Inr d"
    by (rule client_geometry_floating)
next
  show "(\<forall>d'. client_geometry s d' t f = Inr d') \<longleftrightarrow> (t = None \<and> f)"
  proof (rule iffI)
    assume all: "\<forall>d'. client_geometry s d' t f = Inr d'"
    show "t = None \<and> f"
    proof (rule ccontr)
      assume "\<not> (t = None \<and> f)"
      from client_geometry_not_desired [OF this] all show False by blast
    qed
  next
    assume "t = None \<and> f"
    then show "\<forall>d'. client_geometry s d' t f = Inr d'"
      by (simp add: client_geometry_floating)
  qed
qed

lemma layout_send [simp]: "layout (send c s) = layout s"
  by (simp add: send_def)

lemma layout_preserve [simp]: "layout (preserve_window_order s) = layout s"
  by (simp add: preserve_window_order_def raise_placard_def raise_loader_def split: option.splits)

lemma layout_scale_client [simp]: "layout (scale_client r g s) = layout s"
  by (simp add: scale_client_def Let_def)

lemma layout_update_clients:
  "layout (fst (update_clients after rs s)) = layout s"
  by (induction rs arbitrary: s) (auto simp: Let_def split: sum.splits)

lemma layout_setup_workarea: "layout (fst (setup_workarea s)) = layout s"
  by (simp add: setup_workarea_def split: option.splits sum.splits)

lemma layout_update_viewport: "layout (fst (update_viewport_geometry after s)) = layout s"
  by (auto simp: update_viewport_geometry_def and_then_def scale_experience_viewport_window_def
       split: sum.splits option.splits prod.splits
       dest: arg_cong [where f = "\<lambda>p. layout (fst p)"] simp: layout_update_clients)

lemma layout_set_layout: "layout (fst (set_layout l after s)) = l"
proof (cases "l = layout s")
  case True
  then show ?thesis by (simp add: set_layout_def)
next
  case False
  obtain s1 e where sw: "setup_workarea (s\<lparr>layout := l\<rparr>) = (s1, e)"
    by (cases "setup_workarea (s\<lparr>layout := l\<rparr>)")
  have l1: "layout s1 = l"
    using layout_setup_workarea [of "s\<lparr>layout := l\<rparr>"] sw by simp
  show ?thesis
  proof (cases e)
    case None
    with False sw l1 show ?thesis
      by (simp add: set_layout_def and_then_def layout_update_viewport)
  next
    case (Some x)
    with False sw l1 show ?thesis
      by (simp add: set_layout_def and_then_def)
  qed
qed

text \<open>
  Claim C8. \<^verbatim>\<open>set_layout\<close> with the layout that is already current returns at once: the
  state, and with it the trace of requests, is what it was. So the second of two calls
  with the same layout sends nothing and changes nothing, whatever the first one did.
\<close>

theorem set_layout_same_noop:
  "set_layout l after (s\<lparr>layout := l\<rparr>) = (s\<lparr>layout := l\<rparr>, None)
   \<and> set_layout l a2 (fst (set_layout l a1 s)) = (fst (set_layout l a1 s), None)"
proof
  show "set_layout l after (s\<lparr>layout := l\<rparr>) = (s\<lparr>layout := l\<rparr>, None)"
    by (simp add: set_layout_def)
next
  have "layout (fst (set_layout l a1 s)) = l"
    by (rule layout_set_layout)
  then show "set_layout l a2 (fst (set_layout l a1 s)) = (fst (set_layout l a1 s), None)"
    by (simp add: set_layout_def)
qed



section \<open>The example states, from \<^verbatim>\<open>_manage_new_window\<close>\<close>

lemmas example_defs =
  example_decls_def example_xserver_def example_wm_def example_title_def example_client_def
  placard_client_def experience_client_def one_placard_def two_placards_def
  one_experience_def retitled_xserver_def retitled_placard_def

lemmas run_defs =
  manage_new_window_def register_window_def floating_by_type_def floating_by_state_def
  normal_hints_geometry_def window_title_def client_type_from_title_def client_geometry_def
  LAYOUT_GEOMETRY_def getitem_def geometry_of_rect_def generic_production_def
  create_parent_window_def reparent_parent_def scale_client_def preserve_window_order_def
  raise_placard_def raise_loader_def set_ewmh_clients_list_def drain_def send_def
  in_experience_viewport_def OFFSCREEN_HACK_WINDOW_PATTERNS_def
  OFFSCREEN_SOURCE_WINDOW_NAME_def PLACARD_WINDOW_NAME_def opt_def

lemma manage_first_placard:
  "manage_new_window example_decls example_xserver 50 100 example_wm =
     (one_placard\<lparr>calls :=
        [ChangeAttributes 100, ChangeProperty 100 319 [1], ChangeProperty 100 320 [0, 1],
         ChangeAttributes 100, CreateWindow 1000 0 0 1 1, Reparent 100 1000 0 0,
         MapWindow 1000, Sync, Configure 1000 0 0 715 1758, Configure 100 0 0 715 1758,
         RaiseWindow 1000, Sync, MapWindow 100, RaiseWindow 1000, Sync,
         ChangeProperty 1 304 []]\<rparr>, None)"
  by (simp add: run_defs example_defs)

lemma manage_second_placard:
  "manage_new_window example_decls example_xserver 60 101 (one_placard\<lparr>calls := cs\<rparr>) =
     (two_placards\<lparr>calls := cs @
        [ChangeAttributes 101, ChangeProperty 101 319 [1], ChangeProperty 101 320 [0, 1],
         ChangeAttributes 101, CreateWindow 1001 0 0 1 1, Reparent 101 1001 0 0,
         MapWindow 1001, Sync, Configure 1001 0 0 715 1758, Configure 101 0 0 715 1758,
         RaiseWindow 1001, Sync, MapWindow 101, RaiseWindow 1001, Sync,
         ChangeProperty 1 304 []]\<rparr>, None)"
  by (simp add: run_defs example_defs insert_commute) (simp add: Let_def)

lemma manage_experience:
  "manage_new_window example_decls example_xserver 50 102 example_wm =
     (one_experience\<lparr>calls :=
        [ChangeAttributes 102, ChangeProperty 102 319 [1], ChangeProperty 102 320 [0, 1],
         ChangeAttributes 102, CreateWindow 1000 0 0 1 1, Reparent 102 1000 0 0,
         MapWindow 1000, Sync, Reparent 1000 2 978 0, Sync,
         Configure 1000 0 0 3125 2160, Configure 102 0 0 3125 2160,
         Sync, MapWindow 102, Sync, ChangeProperty 1 304 []]\<rparr>, None)"
  by (simp add: run_defs example_defs)

text \<open>
  Two windows with the placard marker in their titles, managed one after the other: both
  are registered and the singleton points to the second.
\<close>

lemma two_placards_managed:
  "(fst (manage_new_window example_decls example_xserver 60 101
       (fst (manage_new_window example_decls example_xserver 50 100 example_wm))))
     \<lparr>calls := []\<rparr> = two_placards"
  by (simp add: manage_first_placard manage_second_placard) (simp add: example_defs)

lemma one_experience_managed:
  "(fst (manage_new_window example_decls example_xserver 50 102 example_wm))\<lparr>calls := []\<rparr>
     = one_experience"
  by (simp add: manage_experience) (simp add: example_defs)

section \<open>Unmap events\<close>

lemma map_of_delitem:
  "map_of (delitem d k) k' = (if k' = k then None else map_of d k')"
  by (induction d) (auto simp: delitem_def)

lemma raises_of_update [simp]:
  "raises_of (s\<lparr>calls := c\<rparr>) = raises_of s"
  "raises_of (s\<lparr>clients := cl\<rparr>) = raises_of s"
  "raises_of (s\<lparr>client_parents := cp\<rparr>) = raises_of s"
  by (simp_all add: raises_of_def cong: option.case_cong)

lemma preserve_window_order_eq:
  "preserve_window_order s = s\<lparr>calls := calls s @ raises_of s @ [Sync]\<rparr>"
  by (simp add: preserve_window_order_def raise_placard_def raise_loader_def send_def
      raises_of_def split: option.splits)

lemma set_ewmh_clients_list_eq:
  "net_atoms s ClientList = Some a \<Longrightarrow>
   set_ewmh_clients_list s = (s\<lparr>calls := calls s @ [ChangeProperty (root s) a []]\<rparr>, None)"
  by (simp add: set_ewmh_clients_list_def drain_def send_def)

lemma unmap_suppressed:
  assumes "map_of (clients s) w = Some r" and "w \<notin> client_parents s"
    and "0 < ignore_unmaps (objs s r)"
  shows "handle_unmap_notify w s =
     (s\<lparr>objs := (objs s)(r := (objs s r)\<lparr>ignore_unmaps := ignore_unmaps (objs s r) - 1\<rparr>)\<rparr>, None)"
  using assms by (simp add: handle_unmap_notify_def Let_def)

lemma unmap_removes:
  assumes "map_of (clients s) w = Some r" and "w \<notin> client_parents s"
    and "\<not> 0 < ignore_unmaps (objs s r)"
    and "parent (objs s r) \<in> client_parents s"
    and "net_atoms s ClientList = Some a"
  shows "handle_unmap_notify w s =
     (let s' = s\<lparr>placard := (if ctype (objs s r) = Some Placard then None else placard s),
                 loader := (if ctype (objs s r) = Some Loader then None else loader s),
                 clients := delitem (clients s) w,
                 client_parents := client_parents s - {parent (objs s r)}\<rparr>
      in s'\<lparr>calls := calls s @ [DestroyWindow (parent (objs s r)), ChangeProperty (root s) a []]
                  @ raises_of s' @ [Sync]\<rparr>, None)"
proof -
  consider (p) "ctype (objs s r) = Some Placard"
    | (l) "ctype (objs s r) = Some Loader"
    | (o) "ctype (objs s r) \<noteq> Some Placard" "ctype (objs s r) \<noteq> Some Loader"
    by blast
  then show ?thesis
  proof cases
    case p
    with assms show ?thesis
      by (simp add: handle_unmap_notify_def Let_def and_then_def set_ewmh_clients_list_eq
          preserve_window_order_eq send_def)
  next
    case l
    with assms show ?thesis
      by (simp add: handle_unmap_notify_def Let_def and_then_def set_ewmh_clients_list_eq
          preserve_window_order_eq send_def)
  next
    case o
    with assms show ?thesis
      by (simp add: handle_unmap_notify_def Let_def and_then_def set_ewmh_clients_list_eq
          preserve_window_order_eq send_def)
  qed
qed

text \<open>
  A client with \<^verbatim>\<open>ignore_unmaps = 2\<close> is still registered after two unmap events and gone
  after the third.
\<close>

lemma unmap_three_events:
  assumes reg: "map_of (clients s) w = Some r"
    and nw: "w \<notin> client_parents s"
    and par: "parent (objs s r) \<in> client_parents s"
    and atom: "net_atoms s ClientList = Some a"
    and two: "ignore_unmaps (objs s r) = 2"
  shows "let s1 = fst (handle_unmap_notify w s);
             s2 = fst (handle_unmap_notify w s1);
             s3 = fst (handle_unmap_notify w s2)
         in map_of (clients s1) w = Some r \<and> map_of (clients s2) w = Some r
            \<and> map_of (clients s3) w = None"
proof -
  define s1 where "s1 = s\<lparr>objs := (objs s)(r := (objs s r)\<lparr>ignore_unmaps := 1\<rparr>)\<rparr>"
  define s2 where "s2 = s1\<lparr>objs := (objs s1)(r := (objs s1 r)\<lparr>ignore_unmaps := 0\<rparr>)\<rparr>"
  have h1: "handle_unmap_notify w s = (s1, None)"
    using unmap_suppressed [OF reg nw] two by (simp add: s1_def)
  have reg1: "map_of (clients s1) w = Some r" and nw1: "w \<notin> client_parents s1"
    and i1: "ignore_unmaps (objs s1 r) = 1"
    using reg nw by (simp_all add: s1_def)
  have h2: "handle_unmap_notify w s1 = (s2, None)"
    using unmap_suppressed [OF reg1 nw1] i1 by (simp add: s2_def)
  have reg2: "map_of (clients s2) w = Some r" and nw2: "w \<notin> client_parents s2"
    and i2: "\<not> 0 < ignore_unmaps (objs s2 r)"
    and par2: "parent (objs s2 r) \<in> client_parents s2"
    and atom2: "net_atoms s2 ClientList = Some a"
    using reg nw par atom by (simp_all add: s2_def s1_def)
  have h3: "map_of (clients (fst (handle_unmap_notify w s2))) w = None"
    by (simp add: unmap_removes [OF reg2 nw2 i2 par2 atom2] Let_def map_of_delitem)
  show ?thesis
    using h1 h2 h3 reg1 reg2 by simp
qed

lemma retitle_placard:
  "handle_property_notify example_decls retitled_xserver 100 303 PropertyNewValue one_placard =
     (retitled_placard\<lparr>calls :=
        [Configure 1000 0 0 3125 2160, Configure 100 0 0 3125 2160, RaiseWindow 1000, Sync,
         Reparent 1000 2 978 0, Sync]\<rparr>, None)"
  by (simp add: handle_property_notify_def title_changed_def run_defs example_defs)

text \<open>
  Claim C7 holds for the suppressed unmap and for the removal from the registry (lemmas
  \<open>unmap_suppressed\<close>, \<open>unmap_removes\<close>, \<open>unmap_three_events\<close>) and fails in two places.
  With the placards 100 and 101 registered, the unmap of 100 leaves 101 registered and
  publishes an empty client list: \<^verbatim>\<open>_set_ewmh_clients_list\<close> has read its \<^verbatim>\<open>map\<close> iterator to
  the end for the debug message before \<^verbatim>\<open>list(new_clients)\<close> reads it. And the singleton is
  cleared by the type of the client, not by its role: the tracked Placard whose title has
  changed to that of ordinary content is still the singleton after its unmap, and its
  destroyed wrapper is raised.
\<close>

theorem unmap_notify_defects:
  "handle_unmap_notify 100 two_placards =
     (two_placards\<lparr>placard := None, clients := [(101, 1)], client_parents := {1001},
        calls := [DestroyWindow 1000, ChangeProperty 1 304 [], Sync]\<rparr>, None)
   \<and> map_of (clients (fst (handle_unmap_notify 100 two_placards))) 101 = Some 1
   \<and> target (objs (fst (handle_unmap_notify 100 two_placards)) 1) = 101
   \<and> (fst (handle_property_notify example_decls retitled_xserver 100 303 PropertyNewValue
         one_placard))\<lparr>calls := []\<rparr> = retitled_placard
   \<and> placard retitled_placard = Some 0
   \<and> map_of (clients retitled_placard) 100 = Some 0
   \<and> handle_unmap_notify 100 retitled_placard =
       (retitled_placard\<lparr>clients := [], client_parents := {},
          calls := [DestroyWindow 1000, ChangeProperty 1 304 [], RaiseWindow 1000, Sync]\<rparr>, None)
   \<and> placard (fst (handle_unmap_notify 100 retitled_placard)) = Some 0"
  by (simp only: retitle_placard)
     (simp add: handle_unmap_notify_def delitem_def and_then_def set_ewmh_clients_list_def
      drain_def preserve_window_order_def raise_placard_def raise_loader_def send_def
      example_defs)

lemma unmap_fst_fields:
  assumes "map_of (clients s) w = Some r" and "w \<notin> client_parents s"
    and "\<not> 0 < ignore_unmaps (objs s r)"
  shows "placard (fst (handle_unmap_notify w s)) =
           (if ctype (objs s r) = Some Placard then None else placard s)"
    and "loader (fst (handle_unmap_notify w s)) =
           (if ctype (objs s r) = Some Loader then None else loader s)"
    and "objs (fst (handle_unmap_notify w s)) = objs s"
    and "\<forall>w'. w' \<noteq> w \<longrightarrow> map_of (clients (fst (handle_unmap_notify w s))) w' = map_of (clients s) w'"
proof -
  consider (p) "ctype (objs s r) = Some Placard"
    | (l) "ctype (objs s r) = Some Loader"
    | (o) "ctype (objs s r) \<noteq> Some Placard" "ctype (objs s r) \<noteq> Some Loader"
    by blast
  then have "placard (fst (handle_unmap_notify w s)) =
           (if ctype (objs s r) = Some Placard then None else placard s)
    \<and> loader (fst (handle_unmap_notify w s)) =
           (if ctype (objs s r) = Some Loader then None else loader s)
    \<and> objs (fst (handle_unmap_notify w s)) = objs s
    \<and> (\<forall>w'. w' \<noteq> w \<longrightarrow> map_of (clients (fst (handle_unmap_notify w s))) w' = map_of (clients s) w')"
  proof cases
    case p
    with assms show ?thesis
      by (cases "net_atoms s ClientList")
         (simp_all add: handle_unmap_notify_def Let_def and_then_def set_ewmh_clients_list_def
          drain_def preserve_window_order_eq send_def map_of_delitem)
  next
    case l
    with assms show ?thesis
      by (cases "net_atoms s ClientList")
         (simp_all add: handle_unmap_notify_def Let_def and_then_def set_ewmh_clients_list_def
          drain_def preserve_window_order_eq send_def map_of_delitem)
  next
    case o
    with assms show ?thesis
      by (cases "net_atoms s ClientList")
         (simp_all add: handle_unmap_notify_def Let_def and_then_def set_ewmh_clients_list_def
          drain_def preserve_window_order_eq send_def map_of_delitem)
  qed
  then show "placard (fst (handle_unmap_notify w s)) =
           (if ctype (objs s r) = Some Placard then None else placard s)"
    and "loader (fst (handle_unmap_notify w s)) =
           (if ctype (objs s r) = Some Loader then None else loader s)"
    and "objs (fst (handle_unmap_notify w s)) = objs s"
    and "\<forall>w'. w' \<noteq> w \<longrightarrow> map_of (clients (fst (handle_unmap_notify w s))) w' = map_of (clients s) w'"
    by blast+
qed

text \<open>
  Claim C10. A real unmap of a registered client whose type is Placard sets the Placard
  singleton to \<^verbatim>\<open>None\<close> whichever client the singleton pointed to, and likewise for the
  Loader; a client of another type leaves the singleton as it is. The store of clients
  and every other entry of the registry stay, so a newer Placard that had replaced the
  singleton remains registered while the singleton is cleared.
\<close>

theorem unmap_clears_singleton_by_type:
  assumes reg: "map_of (clients s) w = Some r"
    and nw: "w \<notin> client_parents s"
    and real: "\<not> 0 < ignore_unmaps (objs s r)"
  shows
    "(ctype (objs s r) = Some Placard \<longrightarrow> placard (fst (handle_unmap_notify w s)) = None)
     \<and> (ctype (objs s r) = Some Loader \<longrightarrow> loader (fst (handle_unmap_notify w s)) = None)
     \<and> (ctype (objs s r) \<noteq> Some Placard \<longrightarrow>
          placard (fst (handle_unmap_notify w s)) = placard s)
     \<and> (ctype (objs s r) \<noteq> Some Loader \<longrightarrow>
          loader (fst (handle_unmap_notify w s)) = loader s)
     \<and> objs (fst (handle_unmap_notify w s)) = objs s
     \<and> (\<forall>w'. w' \<noteq> w \<longrightarrow>
          map_of (clients (fst (handle_unmap_notify w s))) w' = map_of (clients s) w')"
  using unmap_fst_fields [OF reg nw real] by simp

theorem unmap_clears_singleton_by_type_witness:
  "(fst (manage_new_window example_decls example_xserver 60 101
       (fst (manage_new_window example_decls example_xserver 50 100 example_wm))))
     \<lparr>calls := []\<rparr> = two_placards
   \<and> map_of (clients two_placards) 100 = Some 0
   \<and> 100 \<notin> client_parents two_placards
   \<and> \<not> 0 < ignore_unmaps (objs two_placards 0)
   \<and> ctype (objs two_placards 0) = Some Placard
   \<and> placard two_placards = Some 1
   \<and> placard (fst (handle_unmap_notify 100 two_placards)) = None
   \<and> map_of (clients (fst (handle_unmap_notify 100 two_placards))) 101 = Some 1
   \<and> ctype (objs (fst (handle_unmap_notify 100 two_placards)) 1) = Some Placard"
proof -
  have a: "map_of (clients two_placards) 100 = Some 0"
    and b: "100 \<notin> client_parents two_placards"
    and c: "\<not> 0 < ignore_unmaps (objs two_placards 0)"
    and d: "ctype (objs two_placards 0) = Some Placard"
    and e: "placard two_placards = Some 1"
    and f: "map_of (clients two_placards) 101 = Some 1"
    and g: "ctype (objs two_placards 1) = Some Placard"
    by (simp_all add: example_defs)
  from unmap_clears_singleton_by_type [OF a b c] d e f g a b c two_placards_managed
  show ?thesis by simp
qed

section \<open>Clearing the viewport\<close>

lemma clear_clients_eq:
  "clear_clients ts b rs (k, sk) s =
     (s\<lparr>calls := calls s @ map (\<lambda>r. KillClient (target (objs s r)))
                   [r \<leftarrow> rs. ctype (objs s r) \<in> set ts \<and> created_at (objs s r) \<le> b]\<rparr>,
      k + length [r \<leftarrow> rs. ctype (objs s r) \<in> set ts \<and> created_at (objs s r) \<le> b],
      sk + length [r \<leftarrow> rs. ctype (objs s r) \<in> set ts \<and> b < created_at (objs s r)])"
proof (induction rs arbitrary: k sk s)
  case Nil
  then show ?case by simp
next
  case (Cons r rs)
  show ?case
    by (simp add: Let_def Cons.IH send_def)
qed

lemma kill_requests_append:
  "kill_requests (xs @ ys) = kill_requests xs @ kill_requests ys"
  by (induction xs rule: kill_requests.induct) simp_all

lemma kill_requests_map: "kill_requests (map (\<lambda>r. KillClient (f r)) rs) = map f rs"
  by (induction rs) simp_all

lemma kill_requests_raises_of: "kill_requests (raises_of s) = []"
  by (simp add: raises_of_def kill_requests_append split: option.splits)

text \<open>What \<^verbatim>\<open>clear_viewport\<close> appends after the close requests.\<close>

lemma republish_fst:
  "\<exists>cs. fst (and_then (set_ewmh_clients_list s) (\<lambda>s. (preserve_window_order s, None)))
           = s\<lparr>calls := calls s @ cs\<rparr> \<and> kill_requests cs = []"
proof (cases "net_atoms s ClientList")
  case None
  then have "fst (and_then (set_ewmh_clients_list s) (\<lambda>s. (preserve_window_order s, None)))
      = s\<lparr>calls := calls s @ []\<rparr>"
    by (simp add: set_ewmh_clients_list_def drain_def and_then_def)
  moreover have "kill_requests [] = []" by simp
  ultimately show ?thesis by blast
next
  case (Some a)
  let ?cs = "ChangeProperty (root s) a [] # raises_of s @ [Sync]"
  from Some have "fst (and_then (set_ewmh_clients_list s) (\<lambda>s. (preserve_window_order s, None)))
      = s\<lparr>calls := calls s @ ?cs\<rparr>"
    by (simp add: set_ewmh_clients_list_def drain_def and_then_def send_def
        preserve_window_order_eq)
  moreover have "kill_requests ?cs = []"
    by (simp add: kill_requests_append kill_requests_raises_of)
  ultimately show ?thesis by blast
qed

text \<open>
  Claim C5. \<^verbatim>\<open>clear_viewport(before, include)\<close>, with the default types when \<^verbatim>\<open>include\<close> is
  absent, asks to close exactly the registered clients whose type is included and whose
  \<^verbatim>\<open>created_at\<close> is at or before the cutoff, in the order of the registry; the clients of
  an included type created after the cutoff are counted in \<^verbatim>\<open>windows_skipped\<close>; the store
  of clients (so every geometry), the two singletons and the registry are unchanged.
\<close>

theorem clear_viewport_closes:
  "let clear_types = (case include of Some ts \<Rightarrow> ts | None \<Rightarrow> DEFAULT_CLEAR_TYPES D);
       closed = [r \<leftarrow> map snd (clients s).
                   ctype (objs s r) \<in> set clear_types \<and> created_at (objs s r) \<le> before];
       skipped = [r \<leftarrow> map snd (clients s).
                   ctype (objs s r) \<in> set clear_types \<and> before < created_at (objs s r)];
       s' = fst (clear_viewport D before include s)
   in kill_requests (calls s') = kill_requests (calls s) @ map (\<lambda>r. target (objs s r)) closed
      \<and> snd (clear_clients clear_types before (map snd (clients s)) (0, 0) s)
          = (length closed, length skipped)
      \<and> objs s' = objs s \<and> placard s' = placard s \<and> loader s' = loader s
      \<and> clients s' = clients s \<and> client_parents s' = client_parents s"
proof -
  define clear_types where
    "clear_types = (case include of Some ts \<Rightarrow> ts | None \<Rightarrow> DEFAULT_CLEAR_TYPES D)"
  define closed where "closed = [r \<leftarrow> map snd (clients s).
      ctype (objs s r) \<in> set clear_types \<and> created_at (objs s r) \<le> before]"
  define skipped where "skipped = [r \<leftarrow> map snd (clients s).
      ctype (objs s r) \<in> set clear_types \<and> before < created_at (objs s r)]"
  define s1 where "s1 = s\<lparr>calls := calls s @ map (\<lambda>r. KillClient (target (objs s r))) closed\<rparr>"
  have loop: "clear_clients clear_types before (map snd (clients s)) (0, 0) s
      = (s1, length closed, length skipped)"
    by (simp add: clear_clients_eq closed_def skipped_def s1_def)
  then have cv: "clear_viewport D before include s
      = and_then (set_ewmh_clients_list s1) (\<lambda>s. (preserve_window_order s, None))"
    by (simp add: clear_viewport_def clear_types_def)
  obtain cs where cs: "fst (clear_viewport D before include s) = s1\<lparr>calls := calls s1 @ cs\<rparr>"
    and nk: "kill_requests cs = []"
    using republish_fst [of s1] cv by auto
  have k: "kill_requests (calls (fst (clear_viewport D before include s)))
      = kill_requests (calls s) @ map (\<lambda>r. target (objs s r)) closed"
    by (simp add: cs nk s1_def kill_requests_append kill_requests_map)
  have f: "objs (fst (clear_viewport D before include s)) = objs s"
    "placard (fst (clear_viewport D before include s)) = placard s"
    "loader (fst (clear_viewport D before include s)) = loader s"
    "clients (fst (clear_viewport D before include s)) = clients s"
    "client_parents (fst (clear_viewport D before include s)) = client_parents s"
    by (simp_all add: cs s1_def)
  show ?thesis
    unfolding Let_def clear_types_def [symmetric] closed_def [symmetric] skipped_def [symmetric]
    using k f loop by simp
qed


section \<open>The command channel and the control loop\<close>

text \<open>
  The messages that \<^verbatim>\<open>_handle_message\<close> does drop: an unrecognised type, a \<^verbatim>\<open>layout\<close>
  message without a string \<^verbatim>\<open>layout\<close> or with an \<^verbatim>\<open>after\<close> that is not an integer, a
  \<^verbatim>\<open>clear_viewport\<close> message without an integer \<^verbatim>\<open>before\<close>.
\<close>

lemma handle_message_drops:
  assumes "map_of d ''type'' = Some t"
  shows "t \<noteq> PStr ''layout'' \<Longrightarrow> t \<noteq> PStr ''clear_viewport'' \<Longrightarrow>
           handle_message D (PDict d) s = (s, None)"
    and "t = PStr ''layout'' \<Longrightarrow> map_of d ''layout'' = None \<Longrightarrow>
           handle_message D (PDict d) s = (s, None)"
    and "t = PStr ''layout'' \<Longrightarrow> map_of d ''layout'' = Some v \<Longrightarrow> \<not> isinstance_str v \<Longrightarrow>
           handle_message D (PDict d) s = (s, None)"
    and "t = PStr ''layout'' \<Longrightarrow> map_of d ''layout'' = Some v \<Longrightarrow> map_of d ''after'' = Some a \<Longrightarrow>
           a \<noteq> PNone \<Longrightarrow> \<not> isinstance_int a \<Longrightarrow> handle_message D (PDict d) s = (s, None)"
    and "t = PStr ''clear_viewport'' \<Longrightarrow> map_of d ''before'' = None \<Longrightarrow>
           handle_message D (PDict d) s = (s, None)"
    and "t = PStr ''clear_viewport'' \<Longrightarrow> map_of d ''before'' = Some b \<Longrightarrow> \<not> isinstance_int b \<Longrightarrow>
           handle_message D (PDict d) s = (s, None)"
  using assms
  by (simp_all add: handle_message_def subscript_def getitem_def layout_message_def
      clear_viewport_message_def contains_key_def get_or_none_def)


text \<open>
  Claim C2. A \<^verbatim>\<open>clear_viewport\<close> message whose \<^verbatim>\<open>include\<close> is the number 5 has a field of the
  wrong type. \<^verbatim>\<open>_handle_message\<close> checks \<^verbatim>\<open>layout\<close>, \<^verbatim>\<open>after\<close> and \<^verbatim>\<open>before\<close> but not
  \<^verbatim>\<open>include\<close>: the message raises \<^verbatim>\<open>TypeError\<close>, and \<^verbatim>\<open>_process_messages\<close> passes the
  exception on to the loop with the rest of the queue unhandled.
\<close>

theorem handle_message_bad_include_raises:
  "handle_message example_decls bad_include_message example_wm = (example_wm, Some TypeError)
   \<and> process_messages example_decls [bad_include_message, unknown_message] example_wm
       = (example_wm, [unknown_message], Some TypeError)"
  by (simp add: handle_message_def bad_include_message_def subscript_def getitem_def
      clear_viewport_message_def contains_key_def get_or_none_def isinstance_int_def
      int_value_def example_decls_def client_types_of_def iterate_def)

text \<open>
  Claim C3. A tracked client, a property event for \<^verbatim>\<open>WM_NORMAL_HINTS\<close>, hints with the
  position and the max-size flag (36): without debug logging the handler returns the
  state as it was and \<^verbatim>\<open>desired_geometry\<close> stays \<open>(5, 6, 640, 480)\<close>; with debug logging the
  same event sets it to the \<open>(10, 20, 300, 400)\<close> of the hints.
\<close>

theorem normal_hints_need_debug_logging:
  "(fst (manage_new_window example_decls example_xserver 50 102 example_wm))\<lparr>calls := []\<rparr>
     = one_experience
   \<and> map_of (clients one_experience) 102 = Some 0
   \<and> wm_atoms one_experience NormalHints = Some 40
   \<and> get_struct_prop example_xserver 102
       = Inr (Some \<lparr>flags = 36, hint_x = 10, hint_y = 20, max_width = 300, max_height = 400\<rparr>)
   \<and> handle_property_notify example_decls example_xserver 102 40 PropertyNewValue one_experience
       = (one_experience, None)
   \<and> desired_geometry (objs one_experience 0) = WindowGeometry 5 6 640 480
   \<and> desired_geometry (objs (fst (handle_property_notify example_decls example_xserver 102 40
        PropertyNewValue (one_experience\<lparr>debug_logging := True\<rparr>))) 0)
       = WindowGeometry 10 20 300 400"
  by (simp only: one_experience_managed)
     (simp add: handle_property_notify_def normal_hints_changed_def example_defs
      preserve_window_order_eq Let_def)

lemma process_messages_suffix:
  "process_messages D queue s = (s', queue', e) \<Longrightarrow>
   (e = None \<longrightarrow> queue' = []) \<and> (\<exists>handled. queue = handled @ queue')"
proof (induction queue arbitrary: s)
  case Nil
  then show ?case by simp
next
  case (Cons m queue)
  obtain s1 e1 where h: "handle_message D m s = (s1, e1)"
    by (cases "handle_message D m s")
  show ?case
  proof (cases e1)
    case None
    with h Cons.prems have "process_messages D queue s1 = (s', queue', e)" by simp
    from Cons.IH [OF this] show ?thesis by (metis append_Cons)
  next
    case (Some x)
    with h Cons.prems have "queue' = queue" "e = Some x" by simp_all
    then show ?thesis by (metis append_Cons append_Nil option.distinct(1))
  qed
qed

text \<open>
  Claim C6, as stated, fails: after an event whose kind has no configured handler the loop
  goes on to the next event and the queued command is still in the queue.
\<close>

theorem unhandled_event_leaves_queue:
  "loop_iteration example_decls example_xserver 0 (OtherEvent 2) [unknown_message] example_wm
     = (example_wm, [unknown_message], None)
   \<and> fst (snd (loop_iteration example_decls example_xserver 0 (OtherEvent 2) [unknown_message]
        example_wm)) \<noteq> []"
  by (simp add: loop_iteration_def has_handler_def)

lemma process_messages_all_return:
  "all_return D queue s \<Longrightarrow> process_messages D queue s = (handled_in_order D queue s, [], None)"
proof (induction queue arbitrary: s)
  case Nil
  then show ?case by (simp add: handled_in_order_def)
next
  case (Cons m queue)
  obtain s1 e1 where h: "handle_message D m s = (s1, e1)"
    by (cases "handle_message D m s")
  with Cons.prems have e1: "e1 = None" and rest: "all_return D queue s1" by simp_all
  from Cons.IH [OF rest] h e1 show ?case by (simp add: handled_in_order_def)
qed

lemma process_messages_first_raise:
  "all_return D handled s \<Longrightarrow>
   handle_message D m (handled_in_order D handled s) = (s2, Some e) \<Longrightarrow>
   process_messages D (handled @ m # rest) s = (s2, rest, Some e)"
proof (induction handled arbitrary: s)
  case Nil
  then show ?case by (simp add: handled_in_order_def)
next
  case (Cons m' handled)
  obtain s1 e1 where h: "handle_message D m' s = (s1, e1)"
    by (cases "handle_message D m' s")
  with Cons.prems(1) have e1: "e1 = None" and rest: "all_return D handled s1" by simp_all
  from Cons.prems(2) h have "handle_message D m (handled_in_order D handled s1) = (s2, Some e)"
    by (simp add: handled_in_order_def)
  from Cons.IH [OF rest this] h e1 show ?case by simp
qed

text \<open>
  Claim C6, amended. In a turn of the loop whose event has a configured handler that
  returns normally, the queued commands are handled in order, each from the state its
  predecessors left, starting from the state the handler left: when every command
  returns, the turn ends normally in the state the last command left, with the queue
  empty; when a command raises, the commands before it have been handled, the turn ends
  with its exception and the commands after it are still queued. When the handler of the
  event raises, and when the event has no configured handler, no command is handled and
  the queue stays as it is.
\<close>

theorem loop_iteration_handles_in_order:
  "(has_handler ev \<and> event_handler D X now ev s = (s1, None) \<and> all_return D queue s1 \<longrightarrow>
      loop_iteration D X now ev queue s = (handled_in_order D queue s1, [], None))
   \<and> (has_handler ev \<and> event_handler D X now ev s = (s1, None) \<and> all_return D handled s1
        \<and> handle_message D m (handled_in_order D handled s1) = (s2, Some e) \<longrightarrow>
      loop_iteration D X now ev (handled @ m # rest) s = (s2, rest, Some e))
   \<and> (has_handler ev \<and> event_handler D X now ev s = (s1, Some e) \<longrightarrow>
      loop_iteration D X now ev queue s = (s1, queue, Some e))
   \<and> (\<not> has_handler ev \<longrightarrow> loop_iteration D X now ev queue s = (s, queue, None))"
  by (simp add: loop_iteration_def process_messages_all_return process_messages_first_raise)

lemma configure_root_two_placards:
  "event_handler example_decls example_xserver 0 (ConfigureNotify 1 1920 1080) two_placards
     = (two_placards\<lparr>width := 1920, height := 1080\<rparr>, None)"
  by (simp add: event_handler_def handle_configure_notify_def example_defs)

lemma clear_placards_two_placards:
  "handle_message example_decls clear_placards_message
       (two_placards\<lparr>width := 1920, height := 1080\<rparr>)
     = (two_placards\<lparr>width := 1920, height := 1080,
          calls := [KillClient 100, KillClient 101, ChangeProperty 1 304 [], RaiseWindow 1001,
                    Sync]\<rparr>, None)"
  by (simp add: handle_message_def clear_placards_message_def subscript_def getitem_def
      clear_viewport_message_def contains_key_def get_or_none_def isinstance_int_def
      int_value_def client_types_of_def iterate_def clear_viewport_def clear_clients_eq
      and_then_def set_ewmh_clients_list_def drain_def preserve_window_order_eq raises_of_def
      send_def example_defs)

lemma unknown_message_dropped: "handle_message D unknown_message s = (s, None)"
  by (simp add: handle_message_def unknown_message_def subscript_def getitem_def)

lemma bad_include_raises:
  "handle_message example_decls bad_include_message s = (s, Some TypeError)"
  by (simp add: handle_message_def bad_include_message_def subscript_def getitem_def
      clear_viewport_message_def contains_key_def get_or_none_def isinstance_int_def
      int_value_def example_decls_def client_types_of_def iterate_def)

theorem loop_iteration_handles_in_order_witness:
  "has_handler (ConfigureNotify 1 1920 1080)
   \<and> event_handler example_decls example_xserver 0 (ConfigureNotify 1 1920 1080) two_placards
       = (two_placards\<lparr>width := 1920, height := 1080\<rparr>, None)
   \<and> all_return example_decls [clear_placards_message, unknown_message]
       (two_placards\<lparr>width := 1920, height := 1080\<rparr>)
   \<and> loop_iteration example_decls example_xserver 0 (ConfigureNotify 1 1920 1080)
        [clear_placards_message, unknown_message] two_placards
       = (two_placards\<lparr>width := 1920, height := 1080,
            calls := [KillClient 100, KillClient 101, ChangeProperty 1 304 [], RaiseWindow 1001,
                      Sync]\<rparr>, [], None)
   \<and> loop_iteration example_decls example_xserver 0 (ConfigureNotify 1 1920 1080)
        ([clear_placards_message] @ bad_include_message # [unknown_message]) two_placards
       = (two_placards\<lparr>width := 1920, height := 1080,
            calls := [KillClient 100, KillClient 101, ChangeProperty 1 304 [], RaiseWindow 1001,
                      Sync]\<rparr>, [unknown_message], Some TypeError)"
proof -
  let ?ev = "ConfigureNotify 1 1920 1080"
  let ?s1 = "two_placards\<lparr>width := 1920, height := 1080\<rparr>"
  let ?s2 = "two_placards\<lparr>width := 1920, height := 1080,
      calls := [KillClient 100, KillClient 101, ChangeProperty 1 304 [], RaiseWindow 1001, Sync]\<rparr>"
  have h: "has_handler ?ev"
    by (simp add: has_handler_def)
  note e = configure_root_two_placards
  have a: "all_return example_decls [clear_placards_message, unknown_message] ?s1"
    by (simp add: clear_placards_two_placards unknown_message_dropped)
  have a1: "all_return example_decls [clear_placards_message] ?s1"
    by (simp add: clear_placards_two_placards)
  have o: "handled_in_order example_decls [clear_placards_message, unknown_message] ?s1 = ?s2"
    by (simp add: handled_in_order_def clear_placards_two_placards unknown_message_dropped)
  have o1: "handled_in_order example_decls [clear_placards_message] ?s1 = ?s2"
    by (simp add: handled_in_order_def clear_placards_two_placards)
  have r: "handle_message example_decls bad_include_message
      (handled_in_order example_decls [clear_placards_message] ?s1) = (?s2, Some TypeError)"
    by (simp only: o1 bad_include_raises)
  note t = loop_iteration_handles_in_order [of ?ev example_decls example_xserver 0 two_placards ?s1]
  from t [of "[clear_placards_message, unknown_message]"] h e a o
  have first: "loop_iteration example_decls example_xserver 0 ?ev
      [clear_placards_message, unknown_message] two_placards = (?s2, [], None)"
    by simp
  from t [of _ "[clear_placards_message]" bad_include_message ?s2 TypeError "[unknown_message]"]
    h e a1 r
  have second: "loop_iteration example_decls example_xserver 0 ?ev
      ([clear_placards_message] @ bad_include_message # [unknown_message]) two_placards
      = (?s2, [unknown_message], Some TypeError)"
    by blast
  from h e a first second show ?thesis by (intro conjI)
qed

section \<open>The classifier\<close>

lemma nullable_iff: "nullable r \<longleftrightarrow> [] \<in> lang r"
  by (induction r) (auto intro: star.star_empty)

lemma star_cons:
  "a # w \<in> star A \<longleftrightarrow> (\<exists>u v. w = u @ v \<and> a # u \<in> A \<and> v \<in> star A)"
proof
  assume "a # w \<in> star A"
  then show "\<exists>u v. w = u @ v \<and> a # u \<in> A \<and> v \<in> star A"
  proof (induction "a # w" arbitrary: w rule: star.induct)
    case (star_more u v)
    show ?case
    proof (cases u)
      case Nil
      with star_more show ?thesis by simp
    next
      case (Cons b u')
      with star_more.hyps show ?thesis by auto
    qed
  qed
next
  assume "\<exists>u v. w = u @ v \<and> a # u \<in> A \<and> v \<in> star A"
  then obtain u v where "w = u @ v" "a # u \<in> A" "v \<in> star A" by blast
  then show "a # w \<in> star A"
    using star.star_more [of "a # u" A v] by simp
qed

lemma lang_deriv: "w \<in> lang (deriv a r) \<longleftrightarrow> a # w \<in> lang r"
proof (induction r arbitrary: w)
  case (Seq r q)
  have "a # w \<in> lang (Seq r q) \<longleftrightarrow>
      ([] \<in> lang r \<and> a # w \<in> lang q) \<or> (\<exists>u v. w = u @ v \<and> a # u \<in> lang r \<and> v \<in> lang q)"
    by (auto simp: Cons_eq_append_conv)
  with Seq show ?case
    by (auto simp: nullable_iff)
next
  case (Star r)
  then show ?case
    by (auto simp: star_cons)
qed auto

lemma re_match_iff: "re_match r s \<longleftrightarrow> matches_prefix r s"
proof (induction s arbitrary: r)
  case Nil
  then show ?case by (simp add: matches_prefix_def nullable_iff)
next
  case (Cons a s)
  have "matches_prefix r (a # s) \<longleftrightarrow> [] \<in> lang r \<or> matches_prefix (deriv a r) s"
    by (auto simp: matches_prefix_def lang_deriv Cons_eq_append_conv)
  with Cons show ?case by (simp add: nullable_iff)
qed

lemma starts_with_iff: "starts_with needle hay \<longleftrightarrow> (\<exists>v. hay = needle @ v)"
  by (induction needle hay rule: starts_with.induct) auto

lemma str_in_iff: "str_in needle hay \<longleftrightarrow> occurs_in needle hay"
proof (induction hay)
  case Nil
  then show ?case by (auto simp: occurs_in_def)
next
  case (Cons h hay)
  have "occurs_in needle (h # hay) \<longleftrightarrow> (\<exists>v. h # hay = needle @ v) \<or> occurs_in needle hay"
    by (auto simp: occurs_in_def Cons_eq_append_conv) 
  with Cons show ?case by (simp add: starts_with_iff)
qed

lemma lang_lits: "lang (lits s) = {s}"
  by (induction s) auto

lemma lang_opt: "lang (opt r) = insert [] (lang r)"
  by (auto simp: opt_def)

lemma star_any: "star {[c] |c. c \<noteq> CHR 0x0A} = {u. CHR 0x0A \<notin> set u}"
proof (rule set_eqI, rule iffI)
  fix u
  assume "u \<in> star {[c] |c. c \<noteq> CHR 0x0A}"
  then show "u \<in> {u. CHR 0x0A \<notin> set u}"
    by (induction rule: star.induct) auto
next
  fix u :: string
  assume "u \<in> {u. CHR 0x0A \<notin> set u}"
  then show "u \<in> star {[c] |c. c \<noteq> CHR 0x0A}"
  proof (induction u)
    case Nil
    show ?case by (rule star.star_empty)
  next
    case (Cons a u)
    then have "[a] \<in> {[c] |c. c \<noteq> CHR 0x0A}" and "u \<in> star {[c] |c. c \<noteq> CHR 0x0A}"
      by auto
    then have "[a] @ u \<in> star {[c] |c. c \<noteq> CHR 0x0A}" by (rule star.star_more)
    then show ?case by simp
  qed
qed

lemma lang_Seq_iff: "w \<in> lang (Seq r q) \<longleftrightarrow> (\<exists>u v. w = u @ v \<and> u \<in> lang r \<and> v \<in> lang q)"
  by auto

text \<open>
  The one offscreen-hack pattern matches a title when \<open>is sharing your screen\<close> or
  \<open>is sharing a window\<close> occurs in it with no newline before.
\<close>

lemma hack_pattern_matches:
  "(\<exists>pattern \<in> set OFFSCREEN_HACK_WINDOW_PATTERNS. matches_prefix pattern ttl) \<longleftrightarrow>
   (\<exists>u m v. ttl = u @ ''is sharing '' @ m @ v \<and> CHR 0x0A \<notin> set u
      \<and> (m = ''your screen'' \<or> m = ''a window''))"
proof -
  let ?tail = "Seq (Alt (lits ''your screen'') (lits ''a window'')) (opt (Lit CHR ''.''))"
  let ?r = "Seq (Star AnyChar) (Seq (lits ''is sharing '') ?tail)"
  have tail: "\<And>w. w \<in> lang ?tail \<longleftrightarrow>
      (\<exists>m d. w = m @ d \<and> (m = ''your screen'' \<or> m = ''a window'') \<and> (d = [] \<or> d = ''.''))"
    by (simp only: lang_Seq_iff lang.simps(6) lang_lits lang_opt lang.simps(3)) blast
  have r: "\<And>w. w \<in> lang ?r \<longleftrightarrow>
      (\<exists>u m d. w = u @ ''is sharing '' @ m @ d \<and> CHR 0x0A \<notin> set u
         \<and> (m = ''your screen'' \<or> m = ''a window'') \<and> (d = [] \<or> d = ''.''))"
    by (simp only: lang_Seq_iff [of _ "Star AnyChar"] lang_Seq_iff [of _ "lits ''is sharing ''"]
          tail lang.simps(7) lang.simps(4) star_any lang_lits mem_Collect_eq singleton_iff)
       blast
  have "(\<exists>pattern \<in> set OFFSCREEN_HACK_WINDOW_PATTERNS. matches_prefix pattern ttl)
      \<longleftrightarrow> (\<exists>p q. ttl = p @ q \<and> p \<in> lang ?r)"
    by (simp add: OFFSCREEN_HACK_WINDOW_PATTERNS_def matches_prefix_def del: lits.simps lang.simps)
  also have "\<dots> \<longleftrightarrow> (\<exists>u m v. ttl = u @ ''is sharing '' @ m @ v \<and> CHR 0x0A \<notin> set u
      \<and> (m = ''your screen'' \<or> m = ''a window''))"
  proof
    assume "\<exists>p q. ttl = p @ q \<and> p \<in> lang ?r"
    then obtain p q u m d where "ttl = p @ q" "p = u @ ''is sharing '' @ m @ d"
      "CHR 0x0A \<notin> set u" "m = ''your screen'' \<or> m = ''a window''"
      unfolding r by blast
    then have "ttl = u @ ''is sharing '' @ m @ (d @ q)" by (simp only: append_assoc)
    with \<open>CHR 0x0A \<notin> set u\<close> \<open>m = ''your screen'' \<or> m = ''a window''\<close>
    show "\<exists>u m v. ttl = u @ ''is sharing '' @ m @ v \<and> CHR 0x0A \<notin> set u
        \<and> (m = ''your screen'' \<or> m = ''a window'')"
      by blast
  next
    assume "\<exists>u m v. ttl = u @ ''is sharing '' @ m @ v \<and> CHR 0x0A \<notin> set u
        \<and> (m = ''your screen'' \<or> m = ''a window'')"
    then obtain u m v where t: "ttl = u @ ''is sharing '' @ m @ v" and u: "CHR 0x0A \<notin> set u"
      and m: "m = ''your screen'' \<or> m = ''a window''" by blast
    have "u @ ''is sharing '' @ m @ [] \<in> lang ?r"
      unfolding r using u m by blast
    moreover have "ttl = (u @ ''is sharing '' @ m @ []) @ v"
      using t by (simp only: append_assoc append_Nil)
    ultimately show "\<exists>p q. ttl = p @ q \<and> p \<in> lang ?r" by blast
  qed
  finally show ?thesis .
qed

text \<open>
  Claim C4. For a title that is not empty (or a loader marker that is not), the classifier
  answers by the first rule that applies: OffscreenHack if an offscreen-hack pattern
  matches a prefix of the title, else OffscreenSource if the source marker occurs in it,
  else Placard if the placard marker occurs, else Loader if the loader marker occurs,
  else none. A title that a pattern matches and that holds the placard marker is an
  OffscreenHack.
\<close>

theorem classifier_precedence:
  assumes "ttl \<noteq> [] \<or> marker \<noteq> []"
  shows "client_type_from_title marker (Some ttl) =
     (if \<exists>pattern \<in> set OFFSCREEN_HACK_WINDOW_PATTERNS. matches_prefix pattern ttl
        then Some OffscreenHack
      else if occurs_in OFFSCREEN_SOURCE_WINDOW_NAME ttl then Some OffscreenSource
      else if occurs_in PLACARD_WINDOW_NAME ttl then Some Placard
      else if occurs_in marker ttl then Some Loader
      else None)
   \<and> ((\<exists>pattern \<in> set OFFSCREEN_HACK_WINDOW_PATTERNS. matches_prefix pattern ttl)
        \<and> occurs_in PLACARD_WINDOW_NAME ttl \<longrightarrow>
      client_type_from_title marker (Some ttl) = Some OffscreenHack)"
proof (cases "ttl = []")
  case True
  with assms have "marker \<noteq> []" by simp
  with True show ?thesis
    by (simp add: client_type_from_title_def list_ex_iff re_match_iff [symmetric]
        str_in_iff [symmetric] OFFSCREEN_HACK_WINDOW_PATTERNS_def
        OFFSCREEN_SOURCE_WINDOW_NAME_def PLACARD_WINDOW_NAME_def)
next
  case False
  then show ?thesis
    by (simp add: client_type_from_title_def list_ex_iff re_match_iff str_in_iff)
qed

theorem classifier_precedence_witness:
  "hack_placard_title \<noteq> []
   \<and> (\<exists>pattern \<in> set OFFSCREEN_HACK_WINDOW_PATTERNS. matches_prefix pattern hack_placard_title)
   \<and> occurs_in PLACARD_WINDOW_NAME hack_placard_title
   \<and> client_type_from_title ''FOOTRON_LOADING'' (Some hack_placard_title) = Some OffscreenHack"
proof -
  have a: "hack_placard_title \<noteq> []" by (simp add: hack_placard_title_def)
  have b: "\<exists>pattern \<in> set OFFSCREEN_HACK_WINDOW_PATTERNS. matches_prefix pattern hack_placard_title"
    unfolding hack_pattern_matches hack_placard_title_def
    by (intro exI [of _ "''Meet ''"] exI [of _ "''your screen''"]
          exI [of _ "''. FOOTRON_PLACARD''"]) simp
  have c: "occurs_in PLACARD_WINDOW_NAME hack_placard_title"
    unfolding occurs_in_def hack_placard_title_def PLACARD_WINDOW_NAME_def
    by (intro exI [of _ "''Meet is sharing your screen. ''"] exI [of _ "[]"]) simp
  from classifier_precedence [of hack_placard_title "''FOOTRON_LOADING''"] a b c
  show ?thesis by simp
qed

end
